theory Spec2Isabelle
  imports Main
begin

section \<open>JavaScript values and strings\<close>

text \<open>
  A JavaScript string is modelled as a \<^typ>\<open>string\<close>: a list of code units below 256.
  A value that may also be \<open>undefined\<close>, \<open>null\<close> or a number is a \<open>js_value\<close>; it is
  the argument of \<open>sanitizeString\<close>, which only asks whether it is a string.  Where a
  function is only ever handed a string or \<open>null\<close>/\<open>undefined\<close>, the argument is a
  \<^typ>\<open>string option\<close> with \<open>None\<close> for the absent value.
\<close>

datatype js_value = JUndefined | JNull | JNum int | JStr string

definition code :: "char \<Rightarrow> nat" where
  "code c = of_char c"

definition is_lower :: "char \<Rightarrow> bool" where
  \<comment> \<open>the class \<open>[a-z]\<close>\<close>
  "is_lower c = (97 \<le> code c \<and> code c \<le> 122)"

definition is_upper :: "char \<Rightarrow> bool" where
  \<comment> \<open>the class \<open>[A-Z]\<close>\<close>
  "is_upper c = (65 \<le> code c \<and> code c \<le> 90)"

definition is_digit :: "char \<Rightarrow> bool" where
  \<comment> \<open>the class \<open>\d\<close>, that is \<open>[0-9]\<close>\<close>
  "is_digit c = (48 \<le> code c \<and> code c \<le> 57)"

definition is_special :: "char \<Rightarrow> bool" where
  \<comment> \<open>the class \<open>[!@#$%^&*]\<close>\<close>
  "is_special c = (c \<in> set ''!@#$%^&*'')"

definition is_word :: "char \<Rightarrow> bool" where
  \<comment> \<open>the class \<open>[a-zA-Z0-9_]\<close>\<close>
  "is_word c = (is_lower c \<or> is_upper c \<or> is_digit c \<or> c = CHR ''_'')"

definition is_space :: "char \<Rightarrow> bool" where
  \<comment> \<open>white space and line terminators of ECMAScript among the code units below 256:
      TAB, LF, VT, FF, CR, SP and NBSP\<close>
  "is_space c = (code c \<in> {9, 10, 11, 12, 13, 32, 160})"

definition trim :: "string \<Rightarrow> string" where
  \<comment> \<open>\<open>String.prototype.trim\<close>\<close>
  "trim s = rev (dropWhile is_space (rev (dropWhile is_space s)))"

definition edges_clean :: "string \<Rightarrow> bool" where
  \<comment> \<open>a non-empty string with no white space at either end\<close>
  "edges_clean s = (s \<noteq> [] \<and> \<not> is_space (hd s) \<and> \<not> is_space (last s))"

definition replace_all :: "char \<Rightarrow> string \<Rightarrow> string \<Rightarrow> string" where
  \<comment> \<open>\<open>s.replace(/c/g, r)\<close> for a one-character pattern\<close>
  "replace_all c r s = concat (map (\<lambda>x. if x = c then r else [x]) s)"

definition truthy :: "string option \<Rightarrow> bool" where
  \<comment> \<open>truthiness of a string-or-absent value: \<open>null\<close>, \<open>undefined\<close> and \<open>''\<close> are falsy\<close>
  "truthy v = (case v of None \<Rightarrow> False | Some s \<Rightarrow> s \<noteq> [])"


section \<open>Validation engine (server/src/utils/validation.js)\<close>

record validation_result =
  isValid :: bool
  errors :: "string list"

definition result_of :: "string list \<Rightarrow> validation_result" where
  \<comment> \<open>the common tail \<open>return { isValid: errors.length === 0, errors }\<close>\<close>
  "result_of errs = \<lparr>isValid = (length errs = 0), errors = errs\<rparr>"

definition validatePassword :: "string option \<Rightarrow> validation_result" where
  "validatePassword password =
    (if \<not> truthy password then \<lparr>isValid = False, errors = [''Password is required'']\<rparr>
     else let p = the password in
       result_of
        ((if length p < 6 then [''Password must be at least 6 characters long''] else []) @
         (if \<not> list_ex is_lower p
          then [''Password must contain at least one lowercase letter''] else []) @
         (if \<not> list_ex is_upper p
          then [''Password must contain at least one uppercase letter''] else []) @
         (if \<not> list_ex is_digit p
          then [''Password must contain at least one number''] else []) @
         (if \<not> list_ex is_special p
          then [''Password must contain at least one special character (!@#$%^&*)'']
          else [])))"

definition validateUsername :: "string option \<Rightarrow> validation_result" where
  "validateUsername username =
    (if \<not> truthy username then \<lparr>isValid = False, errors = [''Username is required'']\<rparr>
     else let u = the username in
       result_of
        ((if length u < 3 then [''Username must be at least 3 characters long''] else []) @
         (if length u > 30
          then [''Username must be no more than 30 characters long''] else []) @
         (if \<not> (u \<noteq> [] \<and> list_all is_word u)
          then [''Username can only contain letters, numbers, and underscores'']
          else [])))"

definition sanitizeString :: "js_value \<Rightarrow> string" where
  "sanitizeString input =
    (case input of
       JStr s \<Rightarrow>
         replace_all (CHR ''/'') ''&#x2F;''
          (replace_all (CHR 0x27) ''&#x27;''
            (replace_all (CHR 0x22) ''&quot;''
              (replace_all (CHR ''&'') ''&amp;''
                (filter (\<lambda>c. c \<noteq> CHR ''<'' \<and> c \<noteq> CHR ''>'') (trim s)))))
     | _ \<Rightarrow> [])"

subsection \<open>Numbers, parseInt and pagination\<close>

text \<open>
  The numbers of the pagination code are doubles with integral values.  A \<open>js_number\<close>
  is NaN, an infinity, or \<open>Num n\<close> for an integer \<open>n\<close> that a double holds; every
  operation rounds its exact result with \<open>round_double\<close>, to the nearest double, ties
  to the even significand, and to an infinity from \<open>2^1024\<close> on.  \<open>parseInt\<close> reads the
  mathematical integer of a numeral and rounds it in the same way, as V8 does.
\<close>

datatype js_number = NaN | Num int | PosInf | NegInf

fun bitlen :: "nat \<Rightarrow> nat" where
  "bitlen n = (if n = 0 then 0 else 1 + bitlen (n div 2))"

definition round_double :: "int \<Rightarrow> js_number" where
  "round_double n =
    (let a = nat \<bar>n\<bar>;
         k = bitlen a - 53;
         q = a div 2 ^ k;
         r = a mod 2 ^ k;
         q' = (if 2 * r > 2 ^ k \<or> (2 * r = 2 ^ k \<and> odd q) then q + 1 else q);
         v = q' * 2 ^ k
     in if v \<ge> 2 ^ 1024 then (if n < 0 then NegInf else PosInf)
        else Num (if n < 0 then - int v else int v))"

definition digit_value :: "char \<Rightarrow> nat" where
  \<comment> \<open>value of a digit of radix up to 16\<close>
  "digit_value c =
    (if is_digit c then code c - 48
     else if 97 \<le> code c \<and> code c \<le> 102 then code c - 87
     else code c - 55)"

definition is_radix_digit :: "nat \<Rightarrow> char \<Rightarrow> bool" where
  "is_radix_digit r c =
    (if r = 16
     then is_digit c \<or> (97 \<le> code c \<and> code c \<le> 102) \<or> (65 \<le> code c \<and> code c \<le> 70)
     else is_digit c)"

definition digits_value :: "nat \<Rightarrow> string \<Rightarrow> nat" where
  "digits_value r ds = foldl (\<lambda>acc c. acc * r + digit_value c) 0 ds"

definition parseInt_math :: "string \<Rightarrow> int option" where
  \<comment> \<open>the mathematical integer that \<open>parseInt(s)\<close>, with no radix argument, reads;
      \<open>None\<close> when there is none.  Leading white space is skipped, a sign is read, a
      \<open>0x\<close>/\<open>0X\<close> prefix selects radix 16, and the longest prefix of digits is the
      value.\<close>
  "parseInt_math s =
    (let s1 = dropWhile is_space s;
         neg = (s1 \<noteq> [] \<and> hd s1 = CHR ''-'');
         s2 = (if s1 \<noteq> [] \<and> (hd s1 = CHR ''-'' \<or> hd s1 = CHR ''+'') then tl s1 else s1);
         hex = (take 2 s2 = ''0x'' \<or> take 2 s2 = ''0X'');
         r = (if hex then 16 else 10);
         s3 = (if hex then drop 2 s2 else s2);
         z = takeWhile (is_radix_digit r) s3
     in if z = [] then None
        else Some ((if neg then - 1 else 1) * int (digits_value r z)))"

definition parseInt :: "string \<Rightarrow> js_number" where
  \<comment> \<open>\<open>parseInt(s)\<close> for a string: NaN without digits, else the double nearest to the
      integer read\<close>
  "parseInt s = (case parseInt_math s of None \<Rightarrow> NaN | Some n \<Rightarrow> round_double n)"

definition js_or :: "js_number \<Rightarrow> js_number \<Rightarrow> js_number" where
  \<comment> \<open>\<open>x || d\<close> on a number: NaN and 0 are falsy\<close>
  "js_or x d = (if x = NaN \<or> x = Num 0 then d else x)"

fun Math_max :: "js_number \<Rightarrow> js_number \<Rightarrow> js_number" where
  "Math_max NaN y = NaN"
| "Math_max x NaN = NaN"
| "Math_max PosInf y = PosInf"
| "Math_max x PosInf = PosInf"
| "Math_max NegInf y = y"
| "Math_max x NegInf = x"
| "Math_max (Num a) (Num b) = Num (max a b)"

fun Math_min :: "js_number \<Rightarrow> js_number \<Rightarrow> js_number" where
  "Math_min NaN y = NaN"
| "Math_min x NaN = NaN"
| "Math_min NegInf y = NegInf"
| "Math_min x NegInf = NegInf"
| "Math_min PosInf y = y"
| "Math_min x PosInf = x"
| "Math_min (Num a) (Num b) = Num (min a b)"

fun js_minus :: "js_number \<Rightarrow> js_number \<Rightarrow> js_number" where
  \<comment> \<open>\<open>x - y\<close>\<close>
  "js_minus NaN y = NaN"
| "js_minus x NaN = NaN"
| "js_minus (Num a) (Num b) = round_double (a - b)"
| "js_minus (Num a) PosInf = NegInf"
| "js_minus (Num a) NegInf = PosInf"
| "js_minus PosInf PosInf = NaN"
| "js_minus PosInf y = PosInf"
| "js_minus NegInf NegInf = NaN"
| "js_minus NegInf y = NegInf"

fun js_times :: "js_number \<Rightarrow> js_number \<Rightarrow> js_number" where
  \<comment> \<open>\<open>x * y\<close>\<close>
  "js_times NaN y = NaN"
| "js_times x NaN = NaN"
| "js_times (Num a) (Num b) = round_double (a * b)"
| "js_times (Num a) PosInf = (if a = 0 then NaN else if a > 0 then PosInf else NegInf)"
| "js_times (Num a) NegInf = (if a = 0 then NaN else if a > 0 then NegInf else PosInf)"
| "js_times PosInf (Num b) = (if b = 0 then NaN else if b > 0 then PosInf else NegInf)"
| "js_times NegInf (Num b) = (if b = 0 then NaN else if b > 0 then NegInf else PosInf)"
| "js_times PosInf PosInf = PosInf"
| "js_times PosInf NegInf = NegInf"
| "js_times NegInf PosInf = NegInf"
| "js_times NegInf NegInf = PosInf"

text \<open>
  The properties \<open>page\<close> and \<open>limit\<close> of the params object are values of a query
  string: a string, or \<open>undefined\<close> or \<open>null\<close>.  Numbers and other objects as
  properties are outside the model.
\<close>

datatype query_value = QUndefined | QNull | QStr string

record pagination_params =
  page_param :: query_value
  limit_param :: query_value

record pagination =
  page :: js_number
  limit :: js_number
  skip :: js_number

definition parseInt_default :: "int \<Rightarrow> query_value \<Rightarrow> js_number" where
  \<comment> \<open>\<open>parseInt(x)\<close> for the destructured property \<open>x\<close> with the default \<open>d\<close> (1 or
      10): the default replaces \<open>undefined\<close> only and is read back as itself,
      \<open>null\<close> becomes the word \<open>null\<close>, which has no digits\<close>
  "parseInt_default d v =
    (case v of QUndefined \<Rightarrow> Num d | QNull \<Rightarrow> NaN | QStr s \<Rightarrow> parseInt s)"

definition validatePagination :: "pagination_params \<Rightarrow> pagination" where
  "validatePagination params =
    (let validatedPage = Math_max (Num 1) (js_or (parseInt_default 1 (page_param params)) (Num 1));
         validatedLimit =
           Math_min (Num 100)
             (Math_max (Num 1) (js_or (parseInt_default 10 (limit_param params)) (Num 10)))
     in \<lparr>page = validatedPage, limit = validatedLimit,
         skip = js_times (js_minus validatedPage (Num 1)) validatedLimit\<rparr>)"

subsection \<open>Date ranges\<close>

text \<open>
  \<open>new Date(s).getTime()\<close> belongs to the host; \<open>validateDateRange\<close> takes it as the
  parameter \<open>parse\<close>, with \<open>None\<close> for an invalid date (time value NaN).  \<open>iso_date\<close> is
  the host's reading of a date-only string \<open>YYYY-MM-DD\<close> naming a day of the calendar:
  midnight UTC of that day in milliseconds since the epoch.
\<close>

definition validateDateRange ::
  "(string \<Rightarrow> int option) \<Rightarrow> string option \<Rightarrow> string option \<Rightarrow> validation_result" where
  "validateDateRange parse startDate endDate =
    result_of
     (if truthy startDate \<and> truthy endDate then
        (let start = parse (the startDate); end = parse (the endDate) in
          (if start = None then [''Invalid start date format''] else []) @
          (if end = None then [''Invalid end date format''] else []) @
          (case (start, end) of
             (Some a, Some b) \<Rightarrow>
               if a > b then [''Start date must be before end date''] else []
           | _ \<Rightarrow> []))
      else [])"

definition days_in_month :: "int \<Rightarrow> int \<Rightarrow> int" where
  "days_in_month y m =
    (if m = 2 then (if y mod 4 = 0 \<and> (y mod 100 \<noteq> 0 \<or> y mod 400 = 0) then 29 else 28)
     else if m \<in> {4, 6, 9, 11} then 30 else 31)"

definition days_from_civil :: "int \<Rightarrow> int \<Rightarrow> int \<Rightarrow> int" where
  \<comment> \<open>days from 1970-01-01 to the given day of the proleptic Gregorian calendar\<close>
  "days_from_civil y m d =
    (let y1 = (if m \<le> 2 then y - 1 else y);
         era = y1 div 400;
         yoe = y1 - era * 400;
         doy = (153 * (if m > 2 then m - 3 else m + 9) + 2) div 5 + d - 1;
         doe = yoe * 365 + yoe div 4 - yoe div 100 + doy
     in era * 146097 + doe - 719468)"

definition iso_date :: "string \<Rightarrow> int option" where
  "iso_date s =
    (if length s = 10 \<and> s ! 4 = CHR ''-'' \<and> s ! 7 = CHR ''-''
        \<and> list_all is_digit (take 4 s) \<and> list_all is_digit (take 2 (drop 5 s))
        \<and> list_all is_digit (drop 8 s)
     then (let y = int (digits_value 10 (take 4 s));
               m = int (digits_value 10 (take 2 (drop 5 s)));
               d = int (digits_value 10 (drop 8 s))
           in if 1 \<le> m \<and> m \<le> 12 \<and> 1 \<le> d \<and> d \<le> days_in_month y m
              then Some (days_from_civil y m d * 86400000) else None)
     else None)"

subsection \<open>File uploads\<close>

record upload_file =
  size_f :: int
  mimetype :: string

record upload_options =
  maxSize :: "int option"
  allowedTypes :: "string list option"

definition join :: "string \<Rightarrow> string list \<Rightarrow> string" where
  \<comment> \<open>\<open>Array.prototype.join\<close>\<close>
  "join sep xs = (case xs of [] \<Rightarrow> [] | y # ys \<Rightarrow> foldl (\<lambda>acc x. acc @ sep @ x) y ys)"

definition validateFileUpload ::
  "(int \<Rightarrow> string) \<Rightarrow> upload_file option \<Rightarrow> upload_options \<Rightarrow> validation_result" where
  \<comment> \<open>\<open>show_mb n\<close> is the host's rendering of the number \<open>n / (1024 * 1024)\<close> in the
      template string\<close>
  "validateFileUpload show_mb file opts =
    (let maxSize' = (case maxSize opts of None \<Rightarrow> 5 * 1024 * 1024 | Some n \<Rightarrow> n);
         allowedTypes' = (case allowedTypes opts of
                            None \<Rightarrow> [''image/jpeg'', ''image/png'', ''image/gif'']
                          | Some ts \<Rightarrow> ts)
     in case file of
          None \<Rightarrow> \<lparr>isValid = False, errors = [''File is required'']\<rparr>
        | Some f \<Rightarrow>
            result_of
             ((if size_f f > maxSize'
               then [''File size must be less than '' @ show_mb maxSize' @ ''MB''] else []) @
              (if mimetype f \<notin> set allowedTypes'
               then [''File type must be one of: '' @ join '', '' allowedTypes'] else [])))"


section \<open>Token service (server/src/utils/auth.js)\<close>

text \<open>
  An id is either a plain string or the identity store's boxed id, which holds its
  hexadecimal string; \<open>toString\<close> is the canonical string form of both.
\<close>

datatype object_id = StringId string | ObjectId string

definition toString :: "object_id \<Rightarrow> string" where
  "toString i = (case i of StringId s \<Rightarrow> s | ObjectId h \<Rightarrow> h)"

definition id_truthy :: "object_id option \<Rightarrow> bool" where
  \<comment> \<open>truthiness of an id: absent ids and the empty string are falsy, a boxed id is an
      object and always truthy\<close>
  "id_truthy r =
    (case r of None \<Rightarrow> False | Some (StringId s) \<Rightarrow> s \<noteq> [] | Some (ObjectId h) \<Rightarrow> True)"

record user =
  user_id :: object_id
  email :: string
  username :: string
  role :: string
  isActive :: bool
  password :: "string option"

record jwt_payload =
  c_id :: "string option"
  c_email :: "string option"
  c_username :: "string option"
  c_role :: "string option"
  c_iat :: "int option"
  c_nbf :: "int option"
  c_exp :: "int option"

datatype error = Error string

datatype jwt_error = JsonWebTokenError string | NotBeforeError int | TokenExpiredError int

text \<open>
  The package \<open>jsonwebtoken\<close> is not part of the repository.  Its compact serialisation
  \<open>header.payload.signature\<close> is modelled over primitives of the package, which stay
  parameters: the segment encoding of a payload and its inverse (\<open>None\<close> where decoding
  fails), the algorithm that a header segment names (\<open>None\<close> where the segment does not
  decode), the keyed hash of HS256 and those of the other algorithms, and the reading of
  a time span such as \<open>'7d'\<close> in seconds.  \<open>jwt.sign\<close> writes the header \<open>jwt_header\<close>,
  which names HS256; \<open>jwt.verify\<close> with a string secret allows HS256, HS384 and HS512.
  Time claims are whole seconds, and \<open>clock\<close> is the time in seconds.  Log output is not
  modelled.
\<close>

record jwt_lib =
  encode_payload :: "jwt_payload \<Rightarrow> string"
  decode_payload :: "string \<Rightarrow> jwt_payload option"
  header_alg :: "string \<Rightarrow> string option"
  hmac :: "string \<Rightarrow> string \<Rightarrow> string"
  hmac_with :: "string \<Rightarrow> string \<Rightarrow> string \<Rightarrow> string"
  timespan :: "string \<Rightarrow> int option"

definition jwt_header :: string where
  "jwt_header = ''eyJhbGciOiJIUzI1NiIsInR5cCI6IkpXVCJ9''"

fun split_on :: "char \<Rightarrow> string \<Rightarrow> string list" where
  "split_on c [] = [[]]"
| "split_on c (x # xs) =
    (if x = c then [] # split_on c xs
     else (case split_on c xs of [] \<Rightarrow> [[x]] | y # ys \<Rightarrow> (x # y) # ys))"

definition jwt_sign ::
  "jwt_lib \<Rightarrow> int \<Rightarrow> jwt_payload \<Rightarrow> string \<Rightarrow> string \<Rightarrow> error + string" where
  \<comment> \<open>\<open>jwt.sign(payload, secret, { expiresIn })\<close>\<close>
  "jwt_sign lib clock payload secret expiresIn =
    (if secret = [] then Inl (Error ''secretOrPrivateKey must have a value'')
     else case timespan lib expiresIn of
       None \<Rightarrow>
         Inl (Error ''expiresIn should be a number of seconds or string representing a timespan'')
     | Some d \<Rightarrow>
         (let p = payload\<lparr>c_iat := Some clock, c_exp := Some (clock + d)\<rparr>;
              signing_input = jwt_header @ ''.'' @ encode_payload lib p
          in Inr (signing_input @ ''.'' @ hmac lib secret signing_input)))"

definition alg_of :: "jwt_lib \<Rightarrow> string \<Rightarrow> string option" where
  \<comment> \<open>the algorithm named by a header segment; \<open>jwt_header\<close> is the encoding of
      \<open>{"alg":"HS256","typ":"JWT"}\<close>\<close>
  "alg_of lib h = (if h = jwt_header then Some ''HS256'' else header_alg lib h)"

definition signature_for :: "jwt_lib \<Rightarrow> string \<Rightarrow> string \<Rightarrow> string \<Rightarrow> string" where
  "signature_for lib alg secret signing_input =
    (if alg = ''HS256'' then hmac lib secret signing_input
     else hmac_with lib alg secret signing_input)"

definition hmac_algorithms :: "string list" where
  \<comment> \<open>the algorithms \<open>jwt.verify\<close> allows for a string secret\<close>
  "hmac_algorithms = [''HS256'', ''HS384'', ''HS512'']"

definition jwt_verify ::
  "jwt_lib \<Rightarrow> int \<Rightarrow> string \<Rightarrow> string \<Rightarrow> jwt_error + jwt_payload" where
  \<comment> \<open>\<open>jwt.verify(token, secret)\<close>, in the order of the package's checks\<close>
  "jwt_verify lib clock token secret =
    (if token = [] then Inl (JsonWebTokenError ''jwt must be provided'')
     else case split_on (CHR ''.'') token of
       [h, p, s] \<Rightarrow>
         (case alg_of lib h of
            None \<Rightarrow> Inl (JsonWebTokenError ''invalid token'')
          | Some alg \<Rightarrow>
             (case decode_payload lib p of
                None \<Rightarrow> Inl (JsonWebTokenError ''invalid token'')
              | Some payload \<Rightarrow>
                  if trim s = [] then Inl (JsonWebTokenError ''jwt signature is required'')
                  else if secret = []
                    then Inl (JsonWebTokenError ''secret or public key must be provided'')
                  else if alg \<notin> set hmac_algorithms
                    then Inl (JsonWebTokenError ''invalid algorithm'')
                  else if s \<noteq> signature_for lib alg secret (h @ ''.'' @ p)
                    then Inl (JsonWebTokenError ''invalid signature'')
                  else (case c_nbf payload of
                          Some n \<Rightarrow> if n > clock then Inl (NotBeforeError n)
                                    else (case c_exp payload of
                                            None \<Rightarrow> Inr payload
                                          | Some e \<Rightarrow>
                                              if clock \<ge> e then Inl (TokenExpiredError e)
                                              else Inr payload)
                        | None \<Rightarrow>
                            (case c_exp payload of
                               None \<Rightarrow> Inr payload
                             | Some e \<Rightarrow>
                                 if clock \<ge> e then Inl (TokenExpiredError e)
                                 else Inr payload))))
     | _ \<Rightarrow> Inl (JsonWebTokenError ''jwt malformed''))"

definition segments_ok :: "jwt_lib \<Rightarrow> string \<Rightarrow> jwt_payload \<Rightarrow> bool" where
  \<comment> \<open>what base64url and the keyed hash guarantee for the payload \<open>p\<close>: decoding inverts
      encoding, no segment contains the separator, and the signature is not blank\<close>
  "segments_ok lib secret p =
    (decode_payload lib (encode_payload lib p) = Some p
     \<and> CHR ''.'' \<notin> set (encode_payload lib p)
     \<and> CHR ''.'' \<notin> set (hmac lib secret (jwt_header @ ''.'' @ encode_payload lib p))
     \<and> trim (hmac lib secret (jwt_header @ ''.'' @ encode_payload lib p)) \<noteq> [])"

record process_env =
  env_JWT_SECRET :: "string option"
  env_JWT_EXPIRES_IN :: "string option"

definition env_or :: "string option \<Rightarrow> string \<Rightarrow> string" where
  \<comment> \<open>\<open>process.env.X || d\<close>\<close>
  "env_or v d = (if truthy v then the v else d)"

definition JWT_SECRET :: "process_env \<Rightarrow> string" where
  "JWT_SECRET env = env_or (env_JWT_SECRET env) ''your-secret-key''"

definition JWT_EXPIRES_IN :: "process_env \<Rightarrow> string" where
  "JWT_EXPIRES_IN env = env_or (env_JWT_EXPIRES_IN env) ''7d''"

definition token_payload :: "user \<Rightarrow> jwt_payload" where
  \<comment> \<open>the object \<open>{ id: user._id, email, username, role }\<close>; serialising it writes the id
      in its string form\<close>
  "token_payload u =
    \<lparr>c_id = Some (toString (user_id u)), c_email = Some (email u),
     c_username = Some (username u), c_role = Some (role u),
     c_iat = None, c_nbf = None, c_exp = None\<rparr>"

definition generateToken :: "process_env \<Rightarrow> jwt_lib \<Rightarrow> int \<Rightarrow> user \<Rightarrow> error + string" where
  "generateToken env lib clock u =
    (case jwt_sign lib clock (token_payload u) (JWT_SECRET env) (JWT_EXPIRES_IN env) of
       Inl e \<Rightarrow> Inl (Error ''Failed to generate token'')
     | Inr token \<Rightarrow> Inr token)"

definition verifyToken ::
  "process_env \<Rightarrow> jwt_lib \<Rightarrow> int \<Rightarrow> string \<Rightarrow> error + jwt_payload" where
  "verifyToken env lib clock token =
    (case jwt_verify lib clock token (JWT_SECRET env) of
       Inl e \<Rightarrow> Inl (Error ''Invalid token'')
     | Inr decoded \<Rightarrow> Inr decoded)"

definition startsWith :: "string \<Rightarrow> string \<Rightarrow> bool" where
  "startsWith s pre = (take (length pre) s = pre)"

definition extractTokenFromHeader :: "string option \<Rightarrow> string option" where
  "extractTokenFromHeader authHeader =
    (if \<not> truthy authHeader \<or> \<not> startsWith (the authHeader) ''Bearer '' then None
     else Some (drop 7 (the authHeader)))"

definition select_minus_password :: "user \<Rightarrow> user" where
  \<comment> \<open>the projection \<open>.select('-password')\<close>\<close>
  "select_minus_password u = u\<lparr>password := None\<rparr>"

definition getCurrentUser ::
  "process_env \<Rightarrow> jwt_lib \<Rightarrow> int \<Rightarrow> (string option \<Rightarrow> error + user option)
     \<Rightarrow> string \<Rightarrow> user option" where
  \<comment> \<open>\<open>findById\<close> is the identity store: \<open>Inl\<close> is a rejected lookup, \<open>Inr None\<close> no
      record.  Every failure inside the \<open>try\<close> ends in \<open>return null\<close>.\<close>
  "getCurrentUser env lib clock findById token =
    (case verifyToken env lib clock token of
       Inl e \<Rightarrow> None
     | Inr decoded \<Rightarrow>
         (case findById (c_id decoded) of
            Inl e \<Rightarrow> None
          | Inr None \<Rightarrow> None
          | Inr (Some doc) \<Rightarrow>
              (let u = select_minus_password doc
               in if \<not> isActive u then None else Some u)))"

datatype roles = OneRole string | RoleList "string list"

definition hasRole :: "user option \<Rightarrow> roles \<Rightarrow> bool" where
  "hasRole u requiredRoles =
    (case u of
       None \<Rightarrow> False
     | Some usr \<Rightarrow>
         (let rs = (case requiredRoles of OneRole r \<Rightarrow> [r] | RoleList l \<Rightarrow> l)
          in role usr \<in> set rs))"

definition isAdmin :: "user option \<Rightarrow> bool" where
  "isAdmin u = hasRole u (OneRole ''admin'')"

definition isOwner :: "user option \<Rightarrow> object_id option \<Rightarrow> bool" where
  "isOwner u resourceUserId =
    (case u of
       None \<Rightarrow> False
     | Some usr \<Rightarrow>
         if \<not> id_truthy resourceUserId then False
         else toString (user_id usr) = toString (the resourceUserId))"


section \<open>Middleware (server/src/middleware/auth.js)\<close>

record request =
  authorization :: "string option"
  req_user :: "user option"

datatype outcome = Next | Respond nat string

definition optionalAuth_try ::
  "(string \<Rightarrow> error + user option) \<Rightarrow> request \<Rightarrow> error + request \<times> outcome" where
  \<comment> \<open>the \<open>try\<close> block; \<open>lookup\<close> is the awaited call, \<open>Inl\<close> a rejection or throw\<close>
  "optionalAuth_try lookup req =
    (let token = extractTokenFromHeader (authorization req) in
     if truthy token then
       (case lookup (the token) of
          Inl e \<Rightarrow> Inl e
        | Inr None \<Rightarrow> Inr (req, Next)
        | Inr (Some u) \<Rightarrow> Inr (req\<lparr>req_user := Some u\<rparr>, Next))
     else Inr (req, Next))"

definition optionalAuth ::
  "(string \<Rightarrow> error + user option) \<Rightarrow> request \<Rightarrow> request \<times> outcome" where
  \<comment> \<open>the \<open>catch\<close> block continues without authentication\<close>
  "optionalAuth lookup req =
    (case optionalAuth_try lookup req of Inl e \<Rightarrow> (req, Next) | Inr r \<Rightarrow> r)"

definition requireOwner :: "(request \<Rightarrow> object_id option) \<Rightarrow> request \<Rightarrow> outcome" where
  "requireOwner getResourceUserId req =
    (case req_user req of
       None \<Rightarrow> Respond 401 ''Authentication required''
     | Some u \<Rightarrow>
         (let resourceUserId = getResourceUserId req in
          if \<not> id_truthy resourceUserId then Respond 400 ''Resource not found''
          else if toString (user_id u) \<noteq> toString (the resourceUserId) \<and> role u \<noteq> ''admin''
            then Respond 403 ''Access denied''
          else Next))"


section \<open>A reference instance of the token primitives\<close>

text \<open>
  For evaluating the token service on concrete inputs: a payload is written as six
  fields separated by \<open>|\<close> (\<open>-\<close> for an absent field, \<open>+\<close> before a present one,
  with \<open>.\<close>, \<open>|\<close> and \<open>~\<close> escaped; a not-before claim is not written), a header other
  than \<open>jwt_header\<close> is \<open>alg-\<close> followed by the name of its algorithm, the keyed hash
  is a decimal checksum of key and message, and a time span is a number followed by one
  of the units \<open>s\<close>, \<open>m\<close>, \<open>h\<close>, \<open>d\<close>.
\<close>

definition digit_char :: "nat \<Rightarrow> char" where
  "digit_char n = ''0123456789'' ! (n mod 10)"

fun show_nat :: "nat \<Rightarrow> string" where
  "show_nat n =
    (if n < 10 then [digit_char n] else show_nat (n div 10) @ [digit_char (n mod 10)])"

definition show_int :: "int \<Rightarrow> string" where
  "show_int i = (if i < 0 then CHR ''-'' # show_nat (nat (- i)) else show_nat (nat i))"

fun escape :: "string \<Rightarrow> string" where
  "escape [] = []"
| "escape (c # cs) =
    (if c = CHR ''.'' then ''~d'' else if c = CHR ''|'' then ''~p''
     else if c = CHR ''~'' then ''~~'' else [c]) @ escape cs"

fun unescape :: "string \<Rightarrow> string" where
  "unescape [] = []"
| "unescape [c] = [c]"
| "unescape (c # e # cs) =
    (if c = CHR ''~''
     then (if e = CHR ''d'' then CHR ''.'' else if e = CHR ''p'' then CHR ''|'' else e)
            # unescape cs
     else c # unescape (e # cs))"

definition show_field :: "string option \<Rightarrow> string" where
  "show_field f = (case f of None \<Rightarrow> ''-'' | Some s \<Rightarrow> CHR ''+'' # escape s)"

definition read_field :: "string \<Rightarrow> string option option" where
  "read_field s =
    (case s of
       [] \<Rightarrow> None
     | c # r \<Rightarrow> if c = CHR ''+'' then Some (Some (unescape r))
               else if s = ''-'' then Some None else None)"

definition read_num :: "string \<Rightarrow> int option option" where
  "read_num s =
    (case read_field s of
       None \<Rightarrow> None
     | Some None \<Rightarrow> Some None
     | Some (Some d) \<Rightarrow> (case parseInt_math d of None \<Rightarrow> None | Some n \<Rightarrow> Some (Some n)))"

definition plain_encode :: "jwt_payload \<Rightarrow> string" where
  "plain_encode p =
    join ''|'' [show_field (c_id p), show_field (c_email p), show_field (c_username p),
                show_field (c_role p), show_field (map_option show_int (c_iat p)),
                show_field (map_option show_int (c_exp p))]"

definition plain_decode :: "string \<Rightarrow> jwt_payload option" where
  "plain_decode s =
    (case split_on (CHR ''|'') s of
       [a, b, c, d, e, f] \<Rightarrow>
         (case (read_field a, read_field b, read_field c, read_field d, read_num e, read_num f) of
            (Some i, Some m, Some u, Some r, Some t, Some x) \<Rightarrow>
              Some \<lparr>c_id = i, c_email = m, c_username = u, c_role = r, c_iat = t,
                    c_nbf = None, c_exp = x\<rparr>
          | _ \<Rightarrow> None)
     | _ \<Rightarrow> None)"

definition checksum :: "string \<Rightarrow> string \<Rightarrow> string" where
  "checksum k m = show_nat (foldl (\<lambda>a c. (a * 31 + code c) mod 65521) 7 (k @ CHR ''.'' # m))"

definition plain_timespan :: "string \<Rightarrow> int option" where
  "plain_timespan s =
    (let ds = takeWhile is_digit s; u = dropWhile is_digit s in
     if ds = [] then None
     else if u = ''s'' then Some (int (digits_value 10 ds))
     else if u = ''m'' then Some (int (digits_value 10 ds) * 60)
     else if u = ''h'' then Some (int (digits_value 10 ds) * 3600)
     else if u = ''d'' then Some (int (digits_value 10 ds) * 86400)
     else None)"

definition plain_header_alg :: "string \<Rightarrow> string option" where
  "plain_header_alg h = (if take 4 h = ''alg-'' then Some (drop 4 h) else None)"

definition plain_lib :: jwt_lib where
  "plain_lib =
    \<lparr>encode_payload = plain_encode, decode_payload = plain_decode,
     header_alg = plain_header_alg, hmac = checksum,
     hmac_with = (\<lambda>alg k. checksum (alg @ CHR '':'' # k)),
     timespan = plain_timespan\<rparr>"

definition mockUser :: user where
  \<comment> \<open>the user of the unit tests, as an active record of the store\<close>
  "mockUser =
    \<lparr>user_id = StringId ''507f1f77bcf86cd799439011'', email = ''test@example.com'',
     username = ''testuser'', role = ''user'', isActive = True, password = Some ''hashed''\<rparr>"

definition mock_payload :: "int \<Rightarrow> int \<Rightarrow> jwt_payload" where
  \<comment> \<open>the claims of \<open>mockUser\<close>, issued at \<open>t\<close> and expiring at \<open>e\<close>\<close>
  "mock_payload t e =
    \<lparr>c_id = Some ''507f1f77bcf86cd799439011'', c_email = Some ''test@example.com'',
     c_username = Some ''testuser'', c_role = Some ''user'',
     c_iat = Some t, c_nbf = None, c_exp = Some e\<rparr>"

definition mock_token :: string where
  \<comment> \<open>the token of \<open>mockUser\<close> under \<open>test_env\<close>, issued at 1000 for one hour\<close>
  "mock_token =
    jwt_header @ ''.+507f1f77bcf86cd799439011|+test@example~dcom|+testuser|+user|+1000|+4600''
      @ ''.20289''"

definition zero_life_token :: string where
  \<comment> \<open>the token of \<open>mockUser\<close> issued at 1000 with the lifetime \<open>'0s'\<close>\<close>
  "zero_life_token =
    jwt_header @ ''.+507f1f77bcf86cd799439011|+test@example~dcom|+testuser|+user|+1000|+1000''
      @ ''.56192''"

definition hs384_token :: string where
  \<comment> \<open>the claims of \<open>mock_token\<close> under a foreign header naming HS384, signed with the
      secret of \<open>test_env\<close>\<close>
  "hs384_token =
    ''alg-HS384.+507f1f77bcf86cd799439011|+test@example~dcom|+testuser|+user|+1000|+4600''
      @ ''.3896''"

definition none_token :: string where
  \<comment> \<open>the same claims under a header naming the algorithm \<open>none\<close>\<close>
  "none_token =
    ''alg-none.+507f1f77bcf86cd799439011|+test@example~dcom|+testuser|+user|+1000|+4600''
      @ ''.25065''"

definition test_env :: process_env where
  "test_env = \<lparr>env_JWT_SECRET = Some ''test-secret-key'', env_JWT_EXPIRES_IN = Some ''1h''\<rparr>"


section \<open>Properties of the validation engine\<close>

lemmas char_class_defs = is_lower_def is_upper_def is_digit_def is_special_def is_word_def
  is_space_def code_def

lemmas parseInt_defs = parseInt_math_def is_radix_digit_def digits_value_def digit_value_def

lemma result_of_consistent: "isValid (result_of es) = (errors (result_of es) = [])"
  by (simp add: result_of_def)

text \<open>
  Claim C3.  \<open>validatePassword\<close> reports every violated rule in one call: for \<open>"weak"\<close>
  the errors are exactly too-short, missing-uppercase, missing-digit and
  missing-special, in this order, and missing-lowercase is not among them.  An empty
  and an absent password yield the single violation "required".  In general, for a
  password that is not empty, each of the five messages is reported exactly when its
  own rule is violated, whatever the other rules say.
\<close>

theorem validatePassword_aggregates:
  "validatePassword (Some ''weak'') =
     \<lparr>isValid = False,
      errors = [''Password must be at least 6 characters long'',
                ''Password must contain at least one uppercase letter'',
                ''Password must contain at least one number'',
                ''Password must contain at least one special character (!@#$%^&*)'']\<rparr>
   \<and> validatePassword (Some '''') = \<lparr>isValid = False, errors = [''Password is required'']\<rparr>
   \<and> validatePassword None = \<lparr>isValid = False, errors = [''Password is required'']\<rparr>
   \<and> (p \<noteq> [] \<longrightarrow>
        (''Password must be at least 6 characters long''
            \<in> set (errors (validatePassword (Some p))) \<longleftrightarrow> length p < 6)
      \<and> (''Password must contain at least one lowercase letter''
            \<in> set (errors (validatePassword (Some p))) \<longleftrightarrow> \<not> (\<exists>c \<in> set p. is_lower c))
      \<and> (''Password must contain at least one uppercase letter''
            \<in> set (errors (validatePassword (Some p))) \<longleftrightarrow> \<not> (\<exists>c \<in> set p. is_upper c))
      \<and> (''Password must contain at least one number''
            \<in> set (errors (validatePassword (Some p))) \<longleftrightarrow> \<not> (\<exists>c \<in> set p. is_digit c))
      \<and> (''Password must contain at least one special character (!@#$%^&*)''
            \<in> set (errors (validatePassword (Some p))) \<longleftrightarrow> \<not> (\<exists>c \<in> set p. is_special c))
      \<and> ''Password is required'' \<notin> set (errors (validatePassword (Some p))))"
proof -
  have concrete: "validatePassword (Some ''weak'') =
     \<lparr>isValid = False,
      errors = [''Password must be at least 6 characters long'',
                ''Password must contain at least one uppercase letter'',
                ''Password must contain at least one number'',
                ''Password must contain at least one special character (!@#$%^&*)'']\<rparr>
   \<and> validatePassword (Some '''') = \<lparr>isValid = False, errors = [''Password is required'']\<rparr>
   \<and> validatePassword None = \<lparr>isValid = False, errors = [''Password is required'']\<rparr>"
    by (simp add: validatePassword_def truthy_def result_of_def char_class_defs)
  have general: "p \<noteq> [] \<longrightarrow>
        (''Password must be at least 6 characters long''
            \<in> set (errors (validatePassword (Some p))) \<longleftrightarrow> length p < 6)
      \<and> (''Password must contain at least one lowercase letter''
            \<in> set (errors (validatePassword (Some p))) \<longleftrightarrow> \<not> (\<exists>c \<in> set p. is_lower c))
      \<and> (''Password must contain at least one uppercase letter''
            \<in> set (errors (validatePassword (Some p))) \<longleftrightarrow> \<not> (\<exists>c \<in> set p. is_upper c))
      \<and> (''Password must contain at least one number''
            \<in> set (errors (validatePassword (Some p))) \<longleftrightarrow> \<not> (\<exists>c \<in> set p. is_digit c))
      \<and> (''Password must contain at least one special character (!@#$%^&*)''
            \<in> set (errors (validatePassword (Some p))) \<longleftrightarrow> \<not> (\<exists>c \<in> set p. is_special c))
      \<and> ''Password is required'' \<notin> set (errors (validatePassword (Some p)))"
    by (simp add: validatePassword_def truthy_def result_of_def list_ex_iff)
  from concrete general show ?thesis by (intro conjI) (elim conjE, assumption)+
qed

theorem validatePassword_aggregates_witness:
  "''weak'' \<noteq> [] \<and> length ''weak'' < 6 \<and> (\<exists>c \<in> set ''weak''. is_lower c)
   \<and> ''Password must be at least 6 characters long''
        \<in> set (errors (validatePassword (Some ''weak'')))
   \<and> ''Password must contain at least one lowercase letter''
        \<notin> set (errors (validatePassword (Some ''weak'')))"
proof -
  have low: "\<exists>c \<in> set ''weak''. is_lower c" by (simp add: char_class_defs)
  from validatePassword_aggregates[of "''weak''"] low show ?thesis by simp
qed

lemma rules2:
  assumes "m1 \<noteq> m2"
  shows "(m1 \<in> set ((if c1 then [m1] else []) @ (if c2 then [m2] else [])) \<longleftrightarrow> c1)
     \<and> (m2 \<in> set ((if c1 then [m1] else []) @ (if c2 then [m2] else [])) \<longleftrightarrow> c2)
     \<and> set ((if c1 then [m1] else []) @ (if c2 then [m2] else [])) \<subseteq> {m1, m2}
     \<and> distinct ((if c1 then [m1] else []) @ (if c2 then [m2] else []))"
  using assms by auto

lemma rules3:
  assumes "distinct [m1, m2, m3]"
  shows "(m1 \<in> set ((if c1 then [m1] else []) @ (if c2 then [m2] else []) @ (if c3 then [m3] else [])) \<longleftrightarrow> c1)
     \<and> (m2 \<in> set ((if c1 then [m1] else []) @ (if c2 then [m2] else []) @ (if c3 then [m3] else [])) \<longleftrightarrow> c2)
     \<and> (m3 \<in> set ((if c1 then [m1] else []) @ (if c2 then [m2] else []) @ (if c3 then [m3] else [])) \<longleftrightarrow> c3)
     \<and> set ((if c1 then [m1] else []) @ (if c2 then [m2] else []) @ (if c3 then [m3] else [])) \<subseteq> {m1, m2, m3}
     \<and> distinct ((if c1 then [m1] else []) @ (if c2 then [m2] else []) @ (if c3 then [m3] else []))"
  using assms by auto

lemma rules5:
  assumes "distinct [m1, m2, m3, m4, m5]"
  shows "(m1 \<in> set ((if c1 then [m1] else []) @ (if c2 then [m2] else []) @ (if c3 then [m3] else []) @ (if c4 then [m4] else []) @ (if c5 then [m5] else [])) \<longleftrightarrow> c1)
     \<and> (m2 \<in> set ((if c1 then [m1] else []) @ (if c2 then [m2] else []) @ (if c3 then [m3] else []) @ (if c4 then [m4] else []) @ (if c5 then [m5] else [])) \<longleftrightarrow> c2)
     \<and> (m3 \<in> set ((if c1 then [m1] else []) @ (if c2 then [m2] else []) @ (if c3 then [m3] else []) @ (if c4 then [m4] else []) @ (if c5 then [m5] else [])) \<longleftrightarrow> c3)
     \<and> (m4 \<in> set ((if c1 then [m1] else []) @ (if c2 then [m2] else []) @ (if c3 then [m3] else []) @ (if c4 then [m4] else []) @ (if c5 then [m5] else [])) \<longleftrightarrow> c4)
     \<and> (m5 \<in> set ((if c1 then [m1] else []) @ (if c2 then [m2] else []) @ (if c3 then [m3] else []) @ (if c4 then [m4] else []) @ (if c5 then [m5] else [])) \<longleftrightarrow> c5)
     \<and> set ((if c1 then [m1] else []) @ (if c2 then [m2] else []) @ (if c3 then [m3] else []) @ (if c4 then [m4] else []) @ (if c5 then [m5] else [])) \<subseteq> {m1, m2, m3, m4, m5}
     \<and> distinct ((if c1 then [m1] else []) @ (if c2 then [m2] else []) @ (if c3 then [m3] else []) @ (if c4 then [m4] else []) @ (if c5 then [m5] else []))"
  using assms by auto

lemma validatePassword_complete:
  "(\<not> truthy pw \<longrightarrow> errors (validatePassword pw) = [''Password is required''])
   \<and> (truthy pw \<longrightarrow>
        (''Password must be at least 6 characters long''
            \<in> set (errors (validatePassword pw)) \<longleftrightarrow> length (the pw) < 6)
      \<and> (''Password must contain at least one lowercase letter''
            \<in> set (errors (validatePassword pw)) \<longleftrightarrow> \<not> (\<exists>c \<in> set (the pw). is_lower c))
      \<and> (''Password must contain at least one uppercase letter''
            \<in> set (errors (validatePassword pw)) \<longleftrightarrow> \<not> (\<exists>c \<in> set (the pw). is_upper c))
      \<and> (''Password must contain at least one number''
            \<in> set (errors (validatePassword pw)) \<longleftrightarrow> \<not> (\<exists>c \<in> set (the pw). is_digit c))
      \<and> (''Password must contain at least one special character (!@#$%^&*)''
            \<in> set (errors (validatePassword pw)) \<longleftrightarrow> \<not> (\<exists>c \<in> set (the pw). is_special c))
      \<and> set (errors (validatePassword pw))
            \<subseteq> {''Password must be at least 6 characters long'',
                ''Password must contain at least one lowercase letter'',
                ''Password must contain at least one uppercase letter'',
                ''Password must contain at least one number'',
                ''Password must contain at least one special character (!@#$%^&*)''}
      \<and> distinct (errors (validatePassword pw)))"
proof -
  have d: "distinct [''Password must be at least 6 characters long'',
                ''Password must contain at least one lowercase letter'',
                ''Password must contain at least one uppercase letter'',
                ''Password must contain at least one number'',
                ''Password must contain at least one special character (!@#$%^&*)'']"
    by simp
  have req: "\<not> truthy pw \<longrightarrow> errors (validatePassword pw) = [''Password is required'']"
    by (simp add: validatePassword_def)
  have e: "truthy pw \<Longrightarrow> errors (validatePassword pw) =
      (if length (the pw) < 6 then [''Password must be at least 6 characters long''] else []) @
      (if \<not> (\<exists>c \<in> set (the pw). is_lower c)
       then [''Password must contain at least one lowercase letter''] else []) @
      (if \<not> (\<exists>c \<in> set (the pw). is_upper c)
       then [''Password must contain at least one uppercase letter''] else []) @
      (if \<not> (\<exists>c \<in> set (the pw). is_digit c)
       then [''Password must contain at least one number''] else []) @
      (if \<not> (\<exists>c \<in> set (the pw). is_special c)
       then [''Password must contain at least one special character (!@#$%^&*)''] else [])"
    by (simp add: validatePassword_def result_of_def list_ex_iff Let_def)
  show ?thesis
    by (rule conjI[OF req]) (intro impI, simp only: e, rule rules5[OF d])
qed

lemma validateUsername_complete:
  "(\<not> truthy un \<longrightarrow> errors (validateUsername un) = [''Username is required''])
   \<and> (truthy un \<longrightarrow>
        (''Username must be at least 3 characters long''
            \<in> set (errors (validateUsername un)) \<longleftrightarrow> length (the un) < 3)
      \<and> (''Username must be no more than 30 characters long''
            \<in> set (errors (validateUsername un)) \<longleftrightarrow> length (the un) > 30)
      \<and> (''Username can only contain letters, numbers, and underscores''
            \<in> set (errors (validateUsername un)) \<longleftrightarrow> \<not> (\<forall>c \<in> set (the un). is_word c))
      \<and> set (errors (validateUsername un))
            \<subseteq> {''Username must be at least 3 characters long'',
                ''Username must be no more than 30 characters long'',
                ''Username can only contain letters, numbers, and underscores''}
      \<and> distinct (errors (validateUsername un)))"
proof -
  have d: "distinct [''Username must be at least 3 characters long'',
                ''Username must be no more than 30 characters long'',
                ''Username can only contain letters, numbers, and underscores'']"
    by simp
  have req: "\<not> truthy un \<longrightarrow> errors (validateUsername un) = [''Username is required'']"
    by (simp add: validateUsername_def)
  have e: "truthy un \<Longrightarrow> errors (validateUsername un) =
      (if length (the un) < 3 then [''Username must be at least 3 characters long''] else []) @
      (if length (the un) > 30
       then [''Username must be no more than 30 characters long''] else []) @
      (if \<not> (\<forall>c \<in> set (the un). is_word c)
       then [''Username can only contain letters, numbers, and underscores''] else [])"
    by (cases un) (simp_all add: validateUsername_def result_of_def list_all_iff truthy_def Let_def)
  show ?thesis
    by (rule conjI[OF req]) (intro impI, simp only: e, rule rules3[OF d])
qed

lemma validateDateRange_complete:
  "(\<not> (truthy sd \<and> truthy ed) \<longrightarrow> errors (validateDateRange parse sd ed) = [])
   \<and> (truthy sd \<and> truthy ed \<longrightarrow>
        (''Invalid start date format'' \<in> set (errors (validateDateRange parse sd ed))
           \<longleftrightarrow> parse (the sd) = None)
      \<and> (''Invalid end date format'' \<in> set (errors (validateDateRange parse sd ed))
           \<longleftrightarrow> parse (the ed) = None)
      \<and> (''Start date must be before end date'' \<in> set (errors (validateDateRange parse sd ed))
           \<longleftrightarrow> (\<exists>a b. parse (the sd) = Some a \<and> parse (the ed) = Some b \<and> a > b))
      \<and> set (errors (validateDateRange parse sd ed))
           \<subseteq> {''Invalid start date format'', ''Invalid end date format'',
               ''Start date must be before end date''}
      \<and> distinct (errors (validateDateRange parse sd ed)))"
proof -
  have d: "distinct [''Invalid start date format'', ''Invalid end date format'',
               ''Start date must be before end date'']"
    by simp
  have absent: "\<not> (truthy sd \<and> truthy ed) \<longrightarrow> errors (validateDateRange parse sd ed) = []"
    by (auto simp: validateDateRange_def result_of_def)
  have e: "truthy sd \<and> truthy ed \<Longrightarrow> errors (validateDateRange parse sd ed) =
      (if parse (the sd) = None then [''Invalid start date format''] else []) @
      (if parse (the ed) = None then [''Invalid end date format''] else []) @
      (if (\<exists>a b. parse (the sd) = Some a \<and> parse (the ed) = Some b \<and> a > b)
       then [''Start date must be before end date''] else [])"
    by (cases "parse (the sd)"; cases "parse (the ed)")
       (simp_all add: validateDateRange_def result_of_def)
  show ?thesis
    by (rule conjI[OF absent]) (intro impI, simp only: e, rule rules3[OF d])
qed

lemma validateFileUpload_complete:
  "(fl = None \<longrightarrow> errors (validateFileUpload show_mb fl opts) = [''File is required''])
   \<and> (\<forall>f. fl = Some f \<longrightarrow>
        (''File size must be less than ''
            @ show_mb (case maxSize opts of None \<Rightarrow> 5 * 1024 * 1024 | Some n \<Rightarrow> n) @ ''MB''
          \<in> set (errors (validateFileUpload show_mb fl opts))
          \<longleftrightarrow> size_f f > (case maxSize opts of None \<Rightarrow> 5 * 1024 * 1024 | Some n \<Rightarrow> n))
      \<and> (''File type must be one of: ''
            @ join '', '' (case allowedTypes opts of
                             None \<Rightarrow> [''image/jpeg'', ''image/png'', ''image/gif'']
                           | Some ts \<Rightarrow> ts)
          \<in> set (errors (validateFileUpload show_mb fl opts))
          \<longleftrightarrow> mimetype f \<notin> set (case allowedTypes opts of
                                     None \<Rightarrow> [''image/jpeg'', ''image/png'', ''image/gif'']
                                   | Some ts \<Rightarrow> ts))
      \<and> set (errors (validateFileUpload show_mb fl opts))
            \<subseteq> {''File size must be less than ''
                  @ show_mb (case maxSize opts of None \<Rightarrow> 5 * 1024 * 1024 | Some n \<Rightarrow> n)
                  @ ''MB'',
                ''File type must be one of: ''
                  @ join '', '' (case allowedTypes opts of
                                   None \<Rightarrow> [''image/jpeg'', ''image/png'', ''image/gif'']
                                 | Some ts \<Rightarrow> ts)}
      \<and> distinct (errors (validateFileUpload show_mb fl opts)))"
proof -
  let ?max = "case maxSize opts of None \<Rightarrow> 5 * 1024 * 1024 | Some n \<Rightarrow> n"
  let ?types = "case allowedTypes opts of
                  None \<Rightarrow> [''image/jpeg'', ''image/png'', ''image/gif''] | Some ts \<Rightarrow> ts"
  have d: "''File size must be less than '' @ show_mb ?max @ ''MB''
      \<noteq> ''File type must be one of: '' @ join '', '' ?types"
    by simp
  have req: "fl = None \<longrightarrow> errors (validateFileUpload show_mb fl opts) = [''File is required'']"
    by (simp add: validateFileUpload_def)
  have e: "errors (validateFileUpload show_mb (Some f) opts) =
      (if size_f f > ?max then [''File size must be less than '' @ show_mb ?max @ ''MB''] else []) @
      (if mimetype f \<notin> set ?types
       then [''File type must be one of: '' @ join '', '' ?types] else [])" for f
    by (simp add: validateFileUpload_def result_of_def Let_def)
  show ?thesis
    by (rule conjI[OF req]) (intro allI impI, simp only: e, rule rules2[OF d])
qed

text \<open>
  Claim C4.  Every result of the password, username, date-range and file-upload
  validators is consistent: \<open>isValid\<close> holds exactly when the list of errors is empty.
  No result is partially filled: an absent or empty password or username and an absent
  file yield the single violation "required"; otherwise each message of the validator is
  in the list exactly when its own rule is violated, no other message occurs and none
  occurs twice.  For the date range this holds whatever the host's date parser returns
  (with no error at all unless both ends are present), for the file upload whatever the
  options and the rendering of the size are.
\<close>

theorem validation_result_consistent:
  "isValid (validatePassword pw) = (errors (validatePassword pw) = [])
   \<and> isValid (validateUsername un) = (errors (validateUsername un) = [])
   \<and> isValid (validateDateRange parse sd ed) = (errors (validateDateRange parse sd ed) = [])
   \<and> isValid (validateFileUpload show_mb fl opts)
       = (errors (validateFileUpload show_mb fl opts) = [])
   \<and> (\<not> truthy pw \<longrightarrow> errors (validatePassword pw) = [''Password is required''])
   \<and> (truthy pw \<longrightarrow>
        (''Password must be at least 6 characters long''
            \<in> set (errors (validatePassword pw)) \<longleftrightarrow> length (the pw) < 6)
      \<and> (''Password must contain at least one lowercase letter''
            \<in> set (errors (validatePassword pw)) \<longleftrightarrow> \<not> (\<exists>c \<in> set (the pw). is_lower c))
      \<and> (''Password must contain at least one uppercase letter''
            \<in> set (errors (validatePassword pw)) \<longleftrightarrow> \<not> (\<exists>c \<in> set (the pw). is_upper c))
      \<and> (''Password must contain at least one number''
            \<in> set (errors (validatePassword pw)) \<longleftrightarrow> \<not> (\<exists>c \<in> set (the pw). is_digit c))
      \<and> (''Password must contain at least one special character (!@#$%^&*)''
            \<in> set (errors (validatePassword pw)) \<longleftrightarrow> \<not> (\<exists>c \<in> set (the pw). is_special c))
      \<and> set (errors (validatePassword pw))
            \<subseteq> {''Password must be at least 6 characters long'',
                ''Password must contain at least one lowercase letter'',
                ''Password must contain at least one uppercase letter'',
                ''Password must contain at least one number'',
                ''Password must contain at least one special character (!@#$%^&*)''}
      \<and> distinct (errors (validatePassword pw)))
   \<and> (\<not> truthy un \<longrightarrow> errors (validateUsername un) = [''Username is required''])
   \<and> (truthy un \<longrightarrow>
        (''Username must be at least 3 characters long''
            \<in> set (errors (validateUsername un)) \<longleftrightarrow> length (the un) < 3)
      \<and> (''Username must be no more than 30 characters long''
            \<in> set (errors (validateUsername un)) \<longleftrightarrow> length (the un) > 30)
      \<and> (''Username can only contain letters, numbers, and underscores''
            \<in> set (errors (validateUsername un)) \<longleftrightarrow> \<not> (\<forall>c \<in> set (the un). is_word c))
      \<and> set (errors (validateUsername un))
            \<subseteq> {''Username must be at least 3 characters long'',
                ''Username must be no more than 30 characters long'',
                ''Username can only contain letters, numbers, and underscores''}
      \<and> distinct (errors (validateUsername un)))
   \<and> (\<not> (truthy sd \<and> truthy ed) \<longrightarrow> errors (validateDateRange parse sd ed) = [])
   \<and> (truthy sd \<and> truthy ed \<longrightarrow>
        (''Invalid start date format'' \<in> set (errors (validateDateRange parse sd ed))
           \<longleftrightarrow> parse (the sd) = None)
      \<and> (''Invalid end date format'' \<in> set (errors (validateDateRange parse sd ed))
           \<longleftrightarrow> parse (the ed) = None)
      \<and> (''Start date must be before end date'' \<in> set (errors (validateDateRange parse sd ed))
           \<longleftrightarrow> (\<exists>a b. parse (the sd) = Some a \<and> parse (the ed) = Some b \<and> a > b))
      \<and> set (errors (validateDateRange parse sd ed))
           \<subseteq> {''Invalid start date format'', ''Invalid end date format'',
               ''Start date must be before end date''}
      \<and> distinct (errors (validateDateRange parse sd ed)))
   \<and> (fl = None \<longrightarrow> errors (validateFileUpload show_mb fl opts) = [''File is required''])
   \<and> (\<forall>f. fl = Some f \<longrightarrow>
        (''File size must be less than ''
            @ show_mb (case maxSize opts of None \<Rightarrow> 5 * 1024 * 1024 | Some n \<Rightarrow> n) @ ''MB''
          \<in> set (errors (validateFileUpload show_mb fl opts))
          \<longleftrightarrow> size_f f > (case maxSize opts of None \<Rightarrow> 5 * 1024 * 1024 | Some n \<Rightarrow> n))
      \<and> (''File type must be one of: ''
            @ join '', '' (case allowedTypes opts of
                             None \<Rightarrow> [''image/jpeg'', ''image/png'', ''image/gif'']
                           | Some ts \<Rightarrow> ts)
          \<in> set (errors (validateFileUpload show_mb fl opts))
          \<longleftrightarrow> mimetype f \<notin> set (case allowedTypes opts of
                                     None \<Rightarrow> [''image/jpeg'', ''image/png'', ''image/gif'']
                                   | Some ts \<Rightarrow> ts))
      \<and> set (errors (validateFileUpload show_mb fl opts))
            \<subseteq> {''File size must be less than ''
                  @ show_mb (case maxSize opts of None \<Rightarrow> 5 * 1024 * 1024 | Some n \<Rightarrow> n)
                  @ ''MB'',
                ''File type must be one of: ''
                  @ join '', '' (case allowedTypes opts of
                                   None \<Rightarrow> [''image/jpeg'', ''image/png'', ''image/gif'']
                                 | Some ts \<Rightarrow> ts)}
      \<and> distinct (errors (validateFileUpload show_mb fl opts)))"
proof -
  have pw: "isValid (validatePassword pw) = (errors (validatePassword pw) = [])"
    unfolding validatePassword_def Let_def by (simp add: result_of_consistent)
  have un: "isValid (validateUsername un) = (errors (validateUsername un) = [])"
    unfolding validateUsername_def Let_def by (simp add: result_of_consistent)
  have dr: "isValid (validateDateRange parse sd ed) = (errors (validateDateRange parse sd ed) = [])"
    unfolding validateDateRange_def by (rule result_of_consistent)
  have fu: "isValid (validateFileUpload show_mb fl opts)
       = (errors (validateFileUpload show_mb fl opts) = [])"
    unfolding validateFileUpload_def Let_def
    by (cases fl) (simp_all add: result_of_consistent)
  note P = validatePassword_complete[of pw]
  note U = validateUsername_complete[of un]
  note D = validateDateRange_complete[of sd ed parse]
  note F = validateFileUpload_complete[of fl show_mb opts]
  show ?thesis
    by (rule conjI[OF pw conjI[OF un conjI[OF dr conjI[OF fu
          conjI[OF conjunct1[OF P] conjI[OF conjunct2[OF P]
          conjI[OF conjunct1[OF U] conjI[OF conjunct2[OF U]
          conjI[OF conjunct1[OF D] conjI[OF conjunct2[OF D]
          conjI[OF conjunct1[OF F] conjunct2[OF F]]]]]]]]]]]])
qed

theorem validation_result_consistent_witness:
  "truthy (Some ''ab'') \<and> \<not> truthy (Some '''')
   \<and> errors (validateUsername (Some '''')) = [''Username is required'']
   \<and> ''Username must be at least 3 characters long'' \<in> set (errors (validateUsername (Some ''ab'')))
   \<and> ''Username can only contain letters, numbers, and underscores''
        \<notin> set (errors (validateUsername (Some ''ab'')))
   \<and> ''File size must be less than 5MB''
        \<in> set (errors (validateFileUpload (\<lambda>n. ''5'')
              (Some \<lparr>size_f = 10485760, mimetype = ''application/pdf''\<rparr>)
              \<lparr>maxSize = None, allowedTypes = None\<rparr>))
   \<and> ''File type must be one of: image/jpeg, image/png, image/gif''
        \<in> set (errors (validateFileUpload (\<lambda>n. ''5'')
              (Some \<lparr>size_f = 10485760, mimetype = ''application/pdf''\<rparr>)
              \<lparr>maxSize = None, allowedTypes = None\<rparr>))
   \<and> errors (validateFileUpload (\<lambda>n. ''5'') None \<lparr>maxSize = None, allowedTypes = None\<rparr>)
       = [''File is required'']"
proof -
  have t: "truthy (Some ''ab'')" "\<not> truthy (Some '''')" by (simp_all add: truthy_def)
  have w: "\<forall>c \<in> set ''ab''. is_word c" by (simp add: char_class_defs)
  let ?f = "\<lparr>size_f = 10485760, mimetype = ''application/pdf''\<rparr>"
  let ?o = "\<lparr>maxSize = None, allowedTypes = None\<rparr>"
  from validation_result_consistent[of "Some ''''" "Some ''''" _ None None _ None ?o] t
  have a: "errors (validateUsername (Some '''')) = [''Username is required'']"
    and d: "errors (validateFileUpload (\<lambda>n. ''5'') None ?o) = [''File is required'']"
    by simp_all
  from validation_result_consistent[of "Some ''ab''" "Some ''ab''" _ None None "\<lambda>n. ''5''" "Some ?f" ?o]
    t w
  have b: "''Username must be at least 3 characters long''
        \<in> set (errors (validateUsername (Some ''ab'')))"
    and c: "''Username can only contain letters, numbers, and underscores''
        \<notin> set (errors (validateUsername (Some ''ab'')))"
    and e: "''File size must be less than 5MB''
        \<in> set (errors (validateFileUpload (\<lambda>n. ''5'') (Some ?f) ?o))"
    and f: "''File type must be one of: image/jpeg, image/png, image/gif''
        \<in> set (errors (validateFileUpload (\<lambda>n. ''5'') (Some ?f) ?o))"
    by (simp_all add: join_def)
  from t a b c e f d show ?thesis by (intro conjI)
qed

lemma bitlen_le: "n < 2 ^ m \<Longrightarrow> bitlen n \<le> m"
proof (induction m arbitrary: n)
  case 0
  then show ?case by simp
next
  case (Suc m)
  from Suc.prems have "n div 2 < 2 ^ m" by simp
  from Suc.IH[OF this] show ?case by (subst bitlen.simps) simp
qed

lemma round_double_exact:
  assumes "\<bar>n\<bar> \<le> 9007199254740991"
  shows "round_double n = Num n"
proof -
  from assms have a: "nat \<bar>n\<bar> < 2 ^ 53" by simp
  from bitlen_le[OF a] have k: "bitlen (nat \<bar>n\<bar>) - 53 = 0" by simp
  from assms have small: "\<not> (2::nat) ^ 1024 \<le> nat \<bar>n\<bar>" by simp
  show ?thesis unfolding round_double_def Let_def k using small by simp
qed

lemma parseInt_values:
  "parseInt ''0'' = Num 0" "parseInt ''1'' = Num 1" "parseInt ''3'' = Num 3"
  "parseInt ''-5'' = Num (- 5)" "parseInt ''10'' = Num 10" "parseInt ''1000'' = Num 1000"
  "parseInt ''abc'' = NaN"
  by (simp_all add: parseInt_def parseInt_defs char_class_defs round_double_exact)

lemma parseInt_large:
  "parseInt ''9007199254740993'' = Num 9007199254740992"
proof -
  have m: "parseInt_math ''9007199254740993'' = Some 9007199254740993"
    by (simp add: parseInt_defs char_class_defs)
  have r: "round_double 9007199254740993 = Num 9007199254740992"
    unfolding round_double_def Let_def by simp
  show ?thesis by (simp add: parseInt_def m r)
qed

lemma round_double_large:
  "round_double 90071992547409910 = Num 90071992547409904"
  unfolding round_double_def Let_def by simp

text \<open>
  Claim C5, as stated, fails for a limit of zero: \<open>parseInt\<close> reads \<open>"0"\<close> as the
  integer 0, which \<open>|| 10\<close> replaces by the default, so the limit returned is 10 and
  not 0 clamped to \<open>[1,100]\<close>, which is 1.
\<close>

theorem validatePagination_zero_limit:
  "parseInt ''0'' = Num 0
   \<and> validatePagination \<lparr>page_param = QStr ''1'', limit_param = QStr ''0''\<rparr>
       = \<lparr>page = Num 1, limit = Num 10, skip = Num 0\<rparr>
   \<and> limit (validatePagination \<lparr>page_param = QStr ''1'', limit_param = QStr ''0''\<rparr>)
       \<noteq> Num (min 100 (max 1 0))"
  by (simp add: validatePagination_def parseInt_default_def js_or_def parseInt_values
      round_double_exact)

lemma page_cases:
  "Math_max (Num 1) (js_or x (Num 1)) =
     (case x of NaN \<Rightarrow> Num 1 | Num n \<Rightarrow> Num (max 1 n) | PosInf \<Rightarrow> PosInf | NegInf \<Rightarrow> Num 1)"
  by (cases x) (auto simp: js_or_def)

lemma limit_cases:
  "Math_min (Num 100) (Math_max (Num 1) (js_or y (Num 10))) =
     (case y of NaN \<Rightarrow> Num 10
      | Num n \<Rightarrow> if n = 0 then Num 10 else Num (min 100 (max 1 n))
      | PosInf \<Rightarrow> Num 100 | NegInf \<Rightarrow> Num 1)"
  by (cases y) (auto simp: js_or_def)

text \<open>
  Claim C5, amended.  For every params object whose \<open>page\<close> and \<open>limit\<close> are strings,
  \<open>undefined\<close> or \<open>null\<close>: the limit returned is an integer in \<open>[1,100]\<close>; the page
  returned is an integer at least 1, or Infinity for a numeral beyond the doubles; and
  \<open>skip\<close> is \<open>(page - 1) * limit\<close> in the arithmetic of doubles, which is the exact
  product whenever that is at most \<open>2^53 - 1\<close>.  A page that \<open>parseInt\<close> reads as the
  number \<open>n\<close> becomes \<open>max 1 n\<close>, an unreadable or absent page becomes 1.  A limit read
  as a number \<open>n\<close> other than zero becomes \<open>n\<close> clamped to \<open>[1,100]\<close>; an unreadable,
  absent or zero limit becomes the default 10.  \<open>parseInt\<close> reads an integer of size at
  most \<open>2^53 - 1\<close> exactly (a larger one as the nearest double) and a string without
  digits as NaN.  In particular \<open>{page: "0", limit: "1000"}\<close> yields
  \<open>{page: 1, limit: 100, skip: 0}\<close>.
\<close>

theorem validatePagination_normalizes:
  "(\<exists>l. limit (validatePagination params) = Num l \<and> 1 \<le> l \<and> l \<le> 100)
   \<and> (page (validatePagination params) = PosInf
        \<or> (\<exists>p. page (validatePagination params) = Num p \<and> 1 \<le> p))
   \<and> skip (validatePagination params)
       = js_times (js_minus (page (validatePagination params)) (Num 1))
           (limit (validatePagination params))
   \<and> (\<forall>p l. page (validatePagination params) = Num p
          \<and> limit (validatePagination params) = Num l
          \<and> (p - 1) * l \<le> 9007199254740991
        \<longrightarrow> skip (validatePagination params) = Num ((p - 1) * l))
   \<and> (\<forall>n. parseInt_default 1 (page_param params) = Num n
        \<longrightarrow> page (validatePagination params) = Num (max 1 n))
   \<and> (parseInt_default 1 (page_param params) = NaN
        \<longrightarrow> page (validatePagination params) = Num 1)
   \<and> (parseInt_default 1 (page_param params) = PosInf
        \<longrightarrow> page (validatePagination params) = PosInf)
   \<and> (parseInt_default 1 (page_param params) = NegInf
        \<longrightarrow> page (validatePagination params) = Num 1)
   \<and> (\<forall>n. parseInt_default 10 (limit_param params) = Num n \<and> n \<noteq> 0
        \<longrightarrow> limit (validatePagination params) = Num (min 100 (max 1 n)))
   \<and> (parseInt_default 10 (limit_param params) = NaN
         \<or> parseInt_default 10 (limit_param params) = Num 0
        \<longrightarrow> limit (validatePagination params) = Num 10)
   \<and> (parseInt_default 10 (limit_param params) = PosInf
        \<longrightarrow> limit (validatePagination params) = Num 100)
   \<and> (parseInt_default 10 (limit_param params) = NegInf
        \<longrightarrow> limit (validatePagination params) = Num 1)
   \<and> (\<forall>s n. parseInt_math s = Some n \<and> \<bar>n\<bar> \<le> 9007199254740991 \<longrightarrow> parseInt s = Num n)
   \<and> (\<forall>s. parseInt_math s = None \<longrightarrow> parseInt s = NaN)
   \<and> validatePagination \<lparr>page_param = QStr ''0'', limit_param = QStr ''1000''\<rparr>
       = \<lparr>page = Num 1, limit = Num 100, skip = Num 0\<rparr>"
proof -
  let ?x = "parseInt_default 1 (page_param params)"
  let ?y = "parseInt_default 10 (limit_param params)"
  let ?r = "validatePagination params"
  have pg: "page ?r = (case ?x of NaN \<Rightarrow> Num 1 | Num n \<Rightarrow> Num (max 1 n)
                        | PosInf \<Rightarrow> PosInf | NegInf \<Rightarrow> Num 1)"
    by (simp add: validatePagination_def Let_def page_cases)
  have lm: "limit ?r = (case ?y of NaN \<Rightarrow> Num 10
      | Num n \<Rightarrow> if n = 0 then Num 10 else Num (min 100 (max 1 n))
      | PosInf \<Rightarrow> Num 100 | NegInf \<Rightarrow> Num 1)"
    by (simp add: validatePagination_def Let_def limit_cases)
  have sk: "skip ?r = js_times (js_minus (page ?r) (Num 1)) (limit ?r)"
    by (simp add: validatePagination_def Let_def)
  have a: "\<exists>l. limit ?r = Num l \<and> 1 \<le> l \<and> l \<le> 100"
    unfolding lm by (cases ?y) auto
  have b: "page ?r = PosInf \<or> (\<exists>p. page ?r = Num p \<and> 1 \<le> p)"
    unfolding pg by (cases ?x) auto
  have d: "\<forall>p l. page ?r = Num p \<and> limit ?r = Num l \<and> (p - 1) * l \<le> 9007199254740991
        \<longrightarrow> skip ?r = Num ((p - 1) * l)"
  proof (intro allI impI, elim conjE)
    fix p l
    assume p: "page ?r = Num p" and l: "limit ?r = Num l"
      and safe: "(p - 1) * l \<le> 9007199254740991"
    from b p have p1: "1 \<le> p" by auto
    from a l have l1: "1 \<le> l" by auto
    from p1 l1 have "p - 1 \<le> (p - 1) * l" by (simp add: mult_le_cancel_left1)
    with safe p1 have "\<bar>p - 1\<bar> \<le> 9007199254740991" by simp
    then have m: "js_minus (Num p) (Num 1) = Num (p - 1)" by (simp add: round_double_exact)
    from p1 l1 have "0 \<le> (p - 1) * l" by simp
    with safe have "\<bar>(p - 1) * l\<bar> \<le> 9007199254740991" by simp
    then have "js_times (Num (p - 1)) (Num l) = Num ((p - 1) * l)"
      by (simp add: round_double_exact)
    then show "skip ?r = Num ((p - 1) * l)" unfolding sk p l m .
  qed
  have e: "(\<forall>n. ?x = Num n \<longrightarrow> page ?r = Num (max 1 n))
      \<and> (?x = NaN \<longrightarrow> page ?r = Num 1) \<and> (?x = PosInf \<longrightarrow> page ?r = PosInf)
      \<and> (?x = NegInf \<longrightarrow> page ?r = Num 1)"
    unfolding pg by simp
  have f: "(\<forall>n. ?y = Num n \<and> n \<noteq> 0 \<longrightarrow> limit ?r = Num (min 100 (max 1 n)))
      \<and> (?y = NaN \<or> ?y = Num 0 \<longrightarrow> limit ?r = Num 10)
      \<and> (?y = PosInf \<longrightarrow> limit ?r = Num 100) \<and> (?y = NegInf \<longrightarrow> limit ?r = Num 1)"
    unfolding lm by auto
  have h: "(\<forall>s n. parseInt_math s = Some n \<and> \<bar>n\<bar> \<le> 9007199254740991 \<longrightarrow> parseInt s = Num n)
      \<and> (\<forall>s. parseInt_math s = None \<longrightarrow> parseInt s = NaN)"
    by (simp add: parseInt_def round_double_exact)
  have g: "validatePagination \<lparr>page_param = QStr ''0'', limit_param = QStr ''1000''\<rparr>
       = \<lparr>page = Num 1, limit = Num 100, skip = Num 0\<rparr>"
    by (simp add: validatePagination_def parseInt_default_def js_or_def parseInt_values
        round_double_exact)
  from a b sk d e f h g show ?thesis by (intro conjI) (elim conjE, assumption)+
qed

theorem validatePagination_normalizes_witness:
  "validatePagination \<lparr>page_param = QStr ''3'', limit_param = QStr ''-5''\<rparr>
       = \<lparr>page = Num 3, limit = Num 1, skip = Num 2\<rparr>
   \<and> validatePagination \<lparr>page_param = QNull, limit_param = QStr ''0''\<rparr>
       = \<lparr>page = Num 1, limit = Num 10, skip = Num 0\<rparr>
   \<and> validatePagination \<lparr>page_param = QUndefined, limit_param = QUndefined\<rparr>
       = \<lparr>page = Num 1, limit = Num 10, skip = Num 0\<rparr>
   \<and> validatePagination \<lparr>page_param = QStr ''9007199254740993'', limit_param = QStr ''10''\<rparr>
       = \<lparr>page = Num 9007199254740992, limit = Num 10, skip = Num 90071992547409904\<rparr>"
proof -
  have rec: "r = \<lparr>page = P, limit = L, skip = S\<rparr>"
    if "page r = P" "limit r = L" "skip r = S" for r :: pagination and P L S
    using that by auto
  have d: "parseInt_default 1 (QStr ''3'') = Num 3" "parseInt_default 10 (QStr ''-5'') = Num (- 5)"
    "parseInt_default 1 QNull = NaN" "parseInt_default 10 (QStr ''0'') = Num 0"
    "parseInt_default 1 QUndefined = Num 1" "parseInt_default 10 QUndefined = Num 10"
    "parseInt_default 1 (QStr ''9007199254740993'') = Num 9007199254740992"
    "parseInt_default 10 (QStr ''10'') = Num 10"
    by (simp_all add: parseInt_default_def parseInt_values parseInt_large)
  let ?a = "\<lparr>page_param = QStr ''3'', limit_param = QStr ''-5''\<rparr>"
  let ?b = "\<lparr>page_param = QNull, limit_param = QStr ''0''\<rparr>"
  let ?c = "\<lparr>page_param = QUndefined, limit_param = QUndefined\<rparr>"
  let ?d = "\<lparr>page_param = QStr ''9007199254740993'', limit_param = QStr ''10''\<rparr>"
  note A = validatePagination_normalizes[of ?a]
  note B = validatePagination_normalizes[of ?b]
  note C = validatePagination_normalizes[of ?c]
  note D = validatePagination_normalizes[of ?d]
  from A have pa: "page (validatePagination ?a) = Num 3"
    and la: "limit (validatePagination ?a) = Num 1" by (simp_all add: d)
  from A have "skip (validatePagination ?a)
      = js_times (js_minus (page (validatePagination ?a)) (Num 1)) (limit (validatePagination ?a))"
    by (elim conjE)
  then have sa: "skip (validatePagination ?a) = Num 2"
    unfolding pa la by (simp add: round_double_exact)
  from B have pb: "page (validatePagination ?b) = Num 1"
    and lb: "limit (validatePagination ?b) = Num 10" by (simp_all add: d)
  from B have "skip (validatePagination ?b)
      = js_times (js_minus (page (validatePagination ?b)) (Num 1)) (limit (validatePagination ?b))"
    by (elim conjE)
  then have sb: "skip (validatePagination ?b) = Num 0"
    unfolding pb lb by (simp add: round_double_exact)
  from C have pc: "page (validatePagination ?c) = Num 1"
    and lc: "limit (validatePagination ?c) = Num 10" by (simp_all add: d)
  from C have "skip (validatePagination ?c)
      = js_times (js_minus (page (validatePagination ?c)) (Num 1)) (limit (validatePagination ?c))"
    by (elim conjE)
  then have sc: "skip (validatePagination ?c) = Num 0"
    unfolding pc lc by (simp add: round_double_exact)
  from D have pd: "page (validatePagination ?d) = Num 9007199254740992"
    and ld: "limit (validatePagination ?d) = Num 10" by (simp_all add: d)
  from D have "skip (validatePagination ?d)
      = js_times (js_minus (page (validatePagination ?d)) (Num 1)) (limit (validatePagination ?d))"
    by (elim conjE)
  then have sd: "skip (validatePagination ?d) = Num 90071992547409904"
    unfolding pd ld by (simp add: round_double_exact round_double_large)
  from rec[OF pa la sa] rec[OF pb lb sb] rec[OF pc lc sc] rec[OF pd ld sd]
  show ?thesis by (intro conjI)
qed

text \<open>
  Claim C6, as stated, fails when only one end is present: the checks are made under
  the guard \<open>startDate && endDate\<close>, so a start that is no date passes when the end is
  absent or empty.
\<close>

theorem validateDateRange_one_sided:
  "iso_date ''not-a-date'' = None
   \<and> validateDateRange iso_date (Some ''not-a-date'') None = \<lparr>isValid = True, errors = []\<rparr>
   \<and> validateDateRange iso_date (Some ''not-a-date'') (Some '''')
       = \<lparr>isValid = True, errors = []\<rparr>"
  by (simp add: validateDateRange_def result_of_def truthy_def iso_date_def)

lemma iso_date_examples:
  "iso_date ''2023-12-31'' = Some 1703980800000"
  "iso_date ''2023-01-01'' = Some 1672531200000"
  "iso_date ''invalid-date'' = None"
  by (simp_all add: iso_date_def digits_value_def digit_value_def days_in_month_def
      days_from_civil_def char_class_defs)

text \<open>
  Claim C6, amended.  When both ends are present (neither absent nor empty), an end is
  reported as invalid exactly when the host cannot parse it, and "start must be before
  end" is reported exactly when both parse and the start is later than the end; no
  other error occurs.  When either end is absent or empty nothing is checked and the
  result is valid.  \<open>validateDateRange("2023-12-31", "2023-01-01")\<close> yields the single
  violation "start must be before end", and \<open>validateDateRange("", "")\<close> is valid.
\<close>

theorem validateDateRange_checks:
  "(truthy sd \<and> truthy ed \<longrightarrow>
      (''Invalid start date format'' \<in> set (errors (validateDateRange parse sd ed))
         \<longleftrightarrow> parse (the sd) = None)
    \<and> (''Invalid end date format'' \<in> set (errors (validateDateRange parse sd ed))
         \<longleftrightarrow> parse (the ed) = None)
    \<and> (''Start date must be before end date'' \<in> set (errors (validateDateRange parse sd ed))
         \<longleftrightarrow> (\<exists>a b. parse (the sd) = Some a \<and> parse (the ed) = Some b \<and> a > b))
    \<and> set (errors (validateDateRange parse sd ed))
         \<subseteq> {''Invalid start date format'', ''Invalid end date format'',
             ''Start date must be before end date''})
   \<and> (\<not> (truthy sd \<and> truthy ed) \<longrightarrow>
         validateDateRange parse sd ed = \<lparr>isValid = True, errors = []\<rparr>)
   \<and> validateDateRange iso_date (Some ''2023-12-31'') (Some ''2023-01-01'')
       = \<lparr>isValid = False, errors = [''Start date must be before end date'']\<rparr>
   \<and> validateDateRange iso_date (Some '''') (Some '''') = \<lparr>isValid = True, errors = []\<rparr>"
proof -
  have present: "(''Invalid start date format'' \<in> set (errors (validateDateRange parse sd ed))
         \<longleftrightarrow> parse (the sd) = None)
    \<and> (''Invalid end date format'' \<in> set (errors (validateDateRange parse sd ed))
         \<longleftrightarrow> parse (the ed) = None)
    \<and> (''Start date must be before end date'' \<in> set (errors (validateDateRange parse sd ed))
         \<longleftrightarrow> (\<exists>a b. parse (the sd) = Some a \<and> parse (the ed) = Some b \<and> a > b))
    \<and> set (errors (validateDateRange parse sd ed))
         \<subseteq> {''Invalid start date format'', ''Invalid end date format'',
             ''Start date must be before end date''}"
    if "truthy sd" "truthy ed"
    using that
    by (cases "parse (the sd)"; cases "parse (the ed)")
       (auto simp: validateDateRange_def result_of_def)
  have absent: "validateDateRange parse sd ed = \<lparr>isValid = True, errors = []\<rparr>"
    if "\<not> (truthy sd \<and> truthy ed)"
    using that by (auto simp: validateDateRange_def result_of_def)
  have rev: "validateDateRange iso_date (Some ''2023-12-31'') (Some ''2023-01-01'')
       = \<lparr>isValid = False, errors = [''Start date must be before end date'']\<rparr>"
    by (simp add: validateDateRange_def result_of_def truthy_def iso_date_examples)
  have empty: "validateDateRange iso_date (Some '''') (Some '''')
       = \<lparr>isValid = True, errors = []\<rparr>"
    by (simp add: validateDateRange_def result_of_def truthy_def)
  from present have A: "truthy sd \<and> truthy ed \<longrightarrow>
      (''Invalid start date format'' \<in> set (errors (validateDateRange parse sd ed))
         \<longleftrightarrow> parse (the sd) = None)
    \<and> (''Invalid end date format'' \<in> set (errors (validateDateRange parse sd ed))
         \<longleftrightarrow> parse (the ed) = None)
    \<and> (''Start date must be before end date'' \<in> set (errors (validateDateRange parse sd ed))
         \<longleftrightarrow> (\<exists>a b. parse (the sd) = Some a \<and> parse (the ed) = Some b \<and> a > b))
    \<and> set (errors (validateDateRange parse sd ed))
         \<subseteq> {''Invalid start date format'', ''Invalid end date format'',
             ''Start date must be before end date''}"
    by (intro impI) (elim conjE)
  from absent have B: "\<not> (truthy sd \<and> truthy ed) \<longrightarrow>
         validateDateRange parse sd ed = \<lparr>isValid = True, errors = []\<rparr>"
    by (intro impI)
  show ?thesis by (rule conjI[OF A conjI[OF B conjI[OF rev empty]]])
qed

theorem validateDateRange_checks_witness:
  "truthy (Some ''invalid-date'') \<and> truthy (Some ''2023-12-31'')
   \<and> iso_date ''invalid-date'' = None
   \<and> ''Invalid start date format''
        \<in> set (errors (validateDateRange iso_date (Some ''invalid-date'') (Some ''2023-12-31'')))
   \<and> ''Start date must be before end date''
        \<notin> set (errors (validateDateRange iso_date (Some ''invalid-date'') (Some ''2023-12-31'')))
   \<and> \<not> truthy None
   \<and> validateDateRange iso_date None (Some ''2023-12-31'') = \<lparr>isValid = True, errors = []\<rparr>"
  using validateDateRange_checks [of "Some ''invalid-date''" "Some ''2023-12-31''" iso_date]
        validateDateRange_checks [of None "Some ''2023-12-31''" iso_date]
  by (simp add: truthy_def iso_date_examples)

text \<open>
  Claim C10, as stated, fails for the surrounding white space: the input is trimmed
  before the angle brackets are removed, so white space next to a leading or trailing
  bracket ends up at the edge of the output.
\<close>


theorem sanitizeString_exposes_space:
  "sanitizeString (JStr ''< x'') = '' x''
   \<and> is_space (hd (sanitizeString (JStr ''< x'')))
   \<and> sanitizeString (JStr ''a >'') = ''a ''
   \<and> is_space (last (sanitizeString (JStr ''a >'')))"
  by (simp add: sanitizeString_def trim_def replace_all_def char_class_defs)

lemma last_dropWhile_nonempty:
  "dropWhile P xs \<noteq> [] \<Longrightarrow> last (dropWhile P xs) = last xs"
  by (induction xs) (auto split: if_splits)

lemma trim_edges:
  assumes "trim s \<noteq> []"
  shows "\<not> is_space (hd (trim s)) \<and> \<not> is_space (last (trim s))"
proof -
  let ?t = "dropWhile is_space s"
  let ?u = "dropWhile is_space (rev ?t)"
  from assms have u: "?u \<noteq> []" by (simp add: trim_def)
  have t: "?t \<noteq> []"
  proof
    assume e: "?t = []"
    have "?u = []" unfolding e by simp
    with u show False ..
  qed
  have "last (trim s) = hd ?u" by (simp add: trim_def last_rev)
  moreover have "\<not> is_space (hd ?u)" using u by (rule hd_dropWhile)
  moreover have "hd (trim s) = last ?u" by (simp add: trim_def hd_rev)
  moreover have "last ?u = last (rev ?t)" using u by (rule last_dropWhile_nonempty)
  moreover have "last (rev ?t) = hd ?t" by (simp add: last_rev)
  moreover have "\<not> is_space (hd ?t)" using t by (rule hd_dropWhile)
  ultimately show ?thesis by simp
qed

lemma replace_all_notin:
  "x \<notin> set s \<Longrightarrow> x \<notin> set r \<Longrightarrow> x \<notin> set (replace_all c r s)"
  by (auto simp: replace_all_def split: if_splits)

lemma replace_all_Nil [simp]: "replace_all c r [] = []"
  by (simp add: replace_all_def)

lemma replace_all_Cons:
  "replace_all c r (x # xs) = (if x = c then r else [x]) @ replace_all c r xs"
  by (simp add: replace_all_def)

lemma replace_all_append:
  "replace_all c r (xs @ ys) = replace_all c r xs @ replace_all c r ys"
  by (simp add: replace_all_def)

lemma replace_all_edges:
  assumes "edges_clean s" "edges_clean r"
  shows "edges_clean (replace_all c r s)"
proof -
  from assms(1) obtain x xs where s: "s = x # xs" by (cases s) (auto simp: edges_clean_def)
  from assms(1) have "s \<noteq> []" by (simp add: edges_clean_def)
  then obtain ys y where s': "s = ys @ [y]" by (metis rev_exhaust)
  have r: "r \<noteq> []" using assms(2) by (simp add: edges_clean_def)
  have hd: "hd (replace_all c r s) = (if x = c then hd r else x)"
    using r by (simp add: s replace_all_Cons)
  have last: "last (replace_all c r s) = (if y = c then last r else y)"
    using r by (simp add: s' replace_all_append replace_all_Cons)
  have ne: "replace_all c r s \<noteq> []" using r by (simp add: s replace_all_Cons)
  have x: "x = hd s" by (simp add: s)
  have y: "y = last s" by (simp add: s')
  from assms hd last ne show ?thesis unfolding x y by (auto simp: edges_clean_def)
qed

lemma filter_edges:
  assumes "edges_clean t" "P (hd t)" "P (last t)"
  shows "edges_clean (filter P t)"
proof -
  from assms(1) obtain x xs where t: "t = x # xs" by (cases t) (auto simp: edges_clean_def)
  from assms(1) have "t \<noteq> []" by (simp add: edges_clean_def)
  then obtain ys y where t': "t = ys @ [y]" by (metis rev_exhaust)
  have "hd (filter P t) = hd t" using assms(2) by (simp add: t)
  moreover have "last (filter P t) = last t" using assms(3) by (simp add: t')
  moreover have "filter P t \<noteq> []" using assms(2) by (simp add: t)
  ultimately show ?thesis using assms(1) by (simp add: edges_clean_def)
qed

text \<open>
  Claim C10, amended.  \<open>sanitizeString\<close> is total: \<open>undefined\<close>, \<open>null\<close> and numbers give
  the empty string, and for every string the output contains neither \<open><\<close> nor \<open>>\<close>.
  The output has no surrounding white space whenever the trimmed input neither starts
  nor ends with an angle bracket; an input that is empty after trimming gives the
  empty string.
\<close>

theorem sanitizeString_total:
  "sanitizeString JUndefined = [] \<and> sanitizeString JNull = [] \<and> sanitizeString (JNum n) = []
   \<and> CHR ''<'' \<notin> set (sanitizeString (JStr s)) \<and> CHR ''>'' \<notin> set (sanitizeString (JStr s))
   \<and> (trim s = [] \<longrightarrow> sanitizeString (JStr s) = [])
   \<and> (trim s \<noteq> [] \<and> hd (trim s) \<notin> {CHR ''<'', CHR ''>''}
        \<and> last (trim s) \<notin> {CHR ''<'', CHR ''>''}
      \<longrightarrow> sanitizeString (JStr s) \<noteq> []
          \<and> \<not> is_space (hd (sanitizeString (JStr s)))
          \<and> \<not> is_space (last (sanitizeString (JStr s))))"
proof -
  let ?f = "filter (\<lambda>c. c \<noteq> CHR ''<'' \<and> c \<noteq> CHR ''>'') (trim s)"
  have out: "sanitizeString (JStr s) =
      replace_all (CHR ''/'') ''&#x2F;'' (replace_all (CHR 0x27) ''&#x27;''
        (replace_all (CHR 0x22) ''&quot;'' (replace_all (CHR ''&'') ''&amp;'' ?f)))"
    by (simp add: sanitizeString_def)
  have non_string: "sanitizeString JUndefined = [] \<and> sanitizeString JNull = []
      \<and> sanitizeString (JNum n) = []"
    by (simp add: sanitizeString_def)
  have lt: "CHR ''<'' \<notin> set (sanitizeString (JStr s))"
    unfolding out by (intro replace_all_notin) simp_all
  have gt: "CHR ''>'' \<notin> set (sanitizeString (JStr s))"
    unfolding out by (intro replace_all_notin) simp_all
  have empty: "trim s = [] \<longrightarrow> sanitizeString (JStr s) = []"
    by (simp add: out)
  have ent: "edges_clean ''&#x2F;''" "edges_clean ''&#x27;''" "edges_clean ''&quot;''"
      "edges_clean ''&amp;''"
    by (simp_all add: edges_clean_def char_class_defs)
  have edges: "trim s \<noteq> [] \<and> hd (trim s) \<notin> {CHR ''<'', CHR ''>''}
        \<and> last (trim s) \<notin> {CHR ''<'', CHR ''>''}
      \<longrightarrow> sanitizeString (JStr s) \<noteq> []
          \<and> \<not> is_space (hd (sanitizeString (JStr s)))
          \<and> \<not> is_space (last (sanitizeString (JStr s)))"
  proof (intro impI, elim conjE)
    assume ne: "trim s \<noteq> []" and h: "hd (trim s) \<notin> {CHR ''<'', CHR ''>''}"
      and l: "last (trim s) \<notin> {CHR ''<'', CHR ''>''}"
    from trim_edges[OF ne] ne have "edges_clean (trim s)" by (simp add: edges_clean_def)
    then have "edges_clean ?f" using h l by (intro filter_edges) simp_all
    then have "edges_clean (sanitizeString (JStr s))"
      unfolding out by (intro replace_all_edges ent)
    then show "sanitizeString (JStr s) \<noteq> []
          \<and> \<not> is_space (hd (sanitizeString (JStr s)))
          \<and> \<not> is_space (last (sanitizeString (JStr s)))"
      by (simp add: edges_clean_def)
  qed
  from non_string lt gt empty edges show ?thesis by (intro conjI) simp_all
qed

theorem sanitizeString_total_witness:
  "trim ''  a<b & c  '' = ''a<b & c''
   \<and> sanitizeString (JStr ''  a<b & c  '') = ''ab &amp; c''
   \<and> \<not> is_space (hd (sanitizeString (JStr ''  a<b & c  '')))
   \<and> \<not> is_space (last (sanitizeString (JStr ''  a<b & c  '')))
   \<and> trim ''   '' = [] \<and> sanitizeString (JStr ''   '') = []"
proof -
  have t: "trim ''  a<b & c  '' = ''a<b & c''" and t': "trim ''   '' = []"
    by (simp_all add: trim_def char_class_defs)
  have v: "sanitizeString (JStr ''  a<b & c  '') = ''ab &amp; c''"
    by (simp add: sanitizeString_def t replace_all_def)
  show ?thesis
    using sanitizeString_total [of 0 "''  a<b & c  ''"] sanitizeString_total [of 0 "''   ''"]
    by (simp add: t t' v)
qed


section \<open>Properties of the token service\<close>

lemma split_on_nonempty: "split_on c xs \<noteq> []"
  by (induction xs) (auto split: list.splits)

lemma split_on_no_sep: "c \<notin> set xs \<Longrightarrow> split_on c xs = [xs]"
  by (induction xs) auto

lemma split_on_append: "c \<notin> set xs \<Longrightarrow> split_on c (xs @ c # ys) = xs # split_on c ys"
  by (induction xs) (auto split: list.splits)

lemma split_on_three:
  "c \<notin> set a \<Longrightarrow> c \<notin> set b \<Longrightarrow> c \<notin> set s \<Longrightarrow> split_on c (a @ c # b @ c # s) = [a, b, s]"
  by (simp add: split_on_append split_on_no_sep)

lemma jwt_header_no_dot: "CHR ''.'' \<notin> set jwt_header"
  by (simp add: jwt_header_def)

lemma JWT_SECRET_nonempty: "JWT_SECRET env \<noteq> []"
  by (cases "env_JWT_SECRET env") (auto simp: JWT_SECRET_def env_or_def truthy_def)

lemma jwt_verify_segments:
  assumes "CHR ''.'' \<notin> set p" and "CHR ''.'' \<notin> set s"
  shows "jwt_verify lib clock (jwt_header @ ''.'' @ p @ ''.'' @ s) secret =
    (case decode_payload lib p of
       None \<Rightarrow> Inl (JsonWebTokenError ''invalid token'')
     | Some payload \<Rightarrow>
         if trim s = [] then Inl (JsonWebTokenError ''jwt signature is required'')
         else if secret = [] then Inl (JsonWebTokenError ''secret or public key must be provided'')
         else if s \<noteq> hmac lib secret (jwt_header @ ''.'' @ p)
           then Inl (JsonWebTokenError ''invalid signature'')
         else if (case c_nbf payload of None \<Rightarrow> False | Some n \<Rightarrow> n > clock)
           then Inl (NotBeforeError (the (c_nbf payload)))
         else (case c_exp payload of
                 None \<Rightarrow> Inr payload
               | Some e \<Rightarrow> if clock \<ge> e then Inl (TokenExpiredError e) else Inr payload))"
proof -
  have sp: "split_on (CHR ''.'') (jwt_header @ ''.'' @ p @ ''.'' @ s) = [jwt_header, p, s]"
    using split_on_three[OF jwt_header_no_dot assms] by simp
  have ne: "jwt_header @ ''.'' @ p @ ''.'' @ s \<noteq> []" by simp
  show ?thesis unfolding jwt_verify_def sp using ne
    by (simp add: alg_of_def signature_for_def hmac_algorithms_def split: option.splits)
qed

lemma jwt_sign_result:
  assumes "secret \<noteq> []" and "timespan lib expiresIn = Some d"
  shows "jwt_sign lib clock payload secret expiresIn =
    Inr (jwt_header @ ''.'' @ encode_payload lib (payload\<lparr>c_iat := Some clock, c_exp := Some (clock + d)\<rparr>)
         @ ''.'' @ hmac lib secret
             (jwt_header @ ''.'' @
              encode_payload lib (payload\<lparr>c_iat := Some clock, c_exp := Some (clock + d)\<rparr>)))"
  using assms by (simp add: jwt_sign_def Let_def)

lemma verify_issued:
  assumes ts: "timespan lib (JWT_EXPIRES_IN env) = Some d"
    and ok: "segments_ok lib (JWT_SECRET env) ((token_payload u)\<lparr>c_iat := Some clock, c_exp := Some (clock + d)\<rparr>)"
  shows "\<exists>t. generateToken env lib clock u = Inr t
     \<and> jwt_verify lib clock' t (JWT_SECRET env) =
        (if clock' \<ge> clock + d then Inl (TokenExpiredError (clock + d))
         else Inr ((token_payload u)\<lparr>c_iat := Some clock, c_exp := Some (clock + d)\<rparr>))"
proof -
  let ?p = "(token_payload u)\<lparr>c_iat := Some clock, c_exp := Some (clock + d)\<rparr>"
  let ?seg = "encode_payload lib ?p"
  let ?sig = "hmac lib (JWT_SECRET env) (jwt_header @ ''.'' @ ?seg)"
  let ?t = "jwt_header @ ''.'' @ ?seg @ ''.'' @ ?sig"
  from ok have dec: "decode_payload lib ?seg = Some ?p" and nd: "CHR ''.'' \<notin> set ?seg"
    and nds: "CHR ''.'' \<notin> set ?sig" and nb: "trim ?sig \<noteq> []"
    by (simp_all add: segments_ok_def)
  have gen: "generateToken env lib clock u = Inr ?t"
    unfolding generateToken_def jwt_sign_result[OF JWT_SECRET_nonempty ts] by simp
  have ver: "jwt_verify lib clock' ?t (JWT_SECRET env) =
        (if clock' \<ge> clock + d then Inl (TokenExpiredError (clock + d)) else Inr ?p)"
    unfolding jwt_verify_segments[OF nd nds] dec using nb JWT_SECRET_nonempty
    by (simp add: token_payload_def)
  from gen ver show ?thesis by blast
qed


subsection \<open>The reference instance on the test user\<close>

lemmas plain_defs = plain_encode_def plain_decode_def checksum_def
  plain_timespan_def show_field_def read_field_def read_num_def show_int_def digit_char_def
  join_def

lemma plain_lib_sel:
  "encode_payload plain_lib = plain_encode" "decode_payload plain_lib = plain_decode"
  "hmac plain_lib = checksum" "timespan plain_lib = plain_timespan"
  "header_alg plain_lib = plain_header_alg"
  "hmac_with plain_lib = (\<lambda>alg k. checksum (alg @ CHR '':'' # k))"
  by (simp_all add: plain_lib_def)

lemma test_env_config:
  "JWT_SECRET test_env = ''test-secret-key''" "JWT_EXPIRES_IN test_env = ''1h''"
  "JWT_SECRET (test_env\<lparr>env_JWT_EXPIRES_IN := Some ''0s''\<rparr>) = ''test-secret-key''"
  "JWT_EXPIRES_IN (test_env\<lparr>env_JWT_EXPIRES_IN := Some ''0s''\<rparr>) = ''0s''"
  by (simp_all add: JWT_SECRET_def JWT_EXPIRES_IN_def env_or_def truthy_def test_env_def)

lemma plain_timespan_examples:
  "plain_timespan ''1h'' = Some 3600" "plain_timespan ''0s'' = Some 0"
  by (simp_all add: plain_timespan_def digits_value_def digit_value_def char_class_defs)

lemma mock_issued:
  "(token_payload mockUser)\<lparr>c_iat := Some t, c_exp := Some e\<rparr> = mock_payload t e"
  by (simp add: token_payload_def mockUser_def mock_payload_def toString_def)

lemma plain_encode_mock:
  "plain_encode (mock_payload 1000 4600)
     = ''+507f1f77bcf86cd799439011|+test@example~dcom|+testuser|+user|+1000|+4600''"
  "plain_encode (mock_payload 1000 1000)
     = ''+507f1f77bcf86cd799439011|+test@example~dcom|+testuser|+user|+1000|+1000''"
  by (simp_all add: mock_payload_def plain_defs)

lemma plain_decode_mock:
  "plain_decode ''+507f1f77bcf86cd799439011|+test@example~dcom|+testuser|+user|+1000|+4600''
     = Some (mock_payload 1000 4600)"
  "plain_decode ''+507f1f77bcf86cd799439011|+test@example~dcom|+testuser|+user|+1000|+1000''
     = Some (mock_payload 1000 1000)"
  by (simp_all add: mock_payload_def plain_defs parseInt_defs char_class_defs)

lemma checksum_mock:
  "checksum ''test-secret-key''
     (jwt_header @ ''.+507f1f77bcf86cd799439011|+test@example~dcom|+testuser|+user|+1000|+4600'')
     = ''20289''"
  "checksum ''test-secret-key''
     (jwt_header @ ''.+507f1f77bcf86cd799439011|+test@example~dcom|+testuser|+user|+1000|+1000'')
     = ''56192''"
  by (simp_all add: checksum_def jwt_header_def code_def digit_char_def)

lemma segments_ok_mock:
  "segments_ok plain_lib ''test-secret-key'' (mock_payload 1000 4600)"
  "segments_ok plain_lib ''test-secret-key'' (mock_payload 1000 1000)"
  by (simp_all add: segments_ok_def plain_lib_sel plain_encode_mock plain_decode_mock
      checksum_mock[simplified] trim_def char_class_defs)

lemma generateToken_mock:
  "generateToken test_env plain_lib 1000 mockUser = Inr mock_token"
  "generateToken (test_env\<lparr>env_JWT_EXPIRES_IN := Some ''0s''\<rparr>) plain_lib 1000 mockUser
     = Inr zero_life_token"
  by (simp_all add: generateToken_def jwt_sign_def test_env_config plain_lib_sel
      plain_timespan_examples mock_issued plain_encode_mock checksum_mock[simplified]
      mock_token_def zero_life_token_def)

lemma jwt_verify_mock:
  "jwt_verify plain_lib clock mock_token ''test-secret-key'' =
     (if clock \<ge> 4600 then Inl (TokenExpiredError 4600) else Inr (mock_payload 1000 4600))"
  "jwt_verify plain_lib clock zero_life_token ''test-secret-key'' =
     (if clock \<ge> 1000 then Inl (TokenExpiredError 1000) else Inr (mock_payload 1000 1000))"
   "jwt_verify plain_lib clock (mock_token @ ''0'') ''test-secret-key'' =
     Inl (JsonWebTokenError ''invalid signature'')"
proof -
  let ?p = "''+507f1f77bcf86cd799439011|+test@example~dcom|+testuser|+user|+1000|+4600''"
  let ?q = "''+507f1f77bcf86cd799439011|+test@example~dcom|+testuser|+user|+1000|+1000''"
  have p: "CHR ''.'' \<notin> set ?p" and q: "CHR ''.'' \<notin> set ?q" by simp_all
  have s: "CHR ''.'' \<notin> set ''20289''" and s': "CHR ''.'' \<notin> set ''56192''"
    and s'': "CHR ''.'' \<notin> set ''202890''" by simp_all
  have m: "mock_token = jwt_header @ ''.'' @ ?p @ ''.'' @ ''20289''"
    and z: "zero_life_token = jwt_header @ ''.'' @ ?q @ ''.'' @ ''56192''"
    and b: "mock_token @ ''0'' = jwt_header @ ''.'' @ ?p @ ''.'' @ ''202890''"
    by (simp_all add: mock_token_def zero_life_token_def)
  show "jwt_verify plain_lib clock mock_token ''test-secret-key'' =
     (if clock \<ge> 4600 then Inl (TokenExpiredError 4600) else Inr (mock_payload 1000 4600))"
    unfolding m jwt_verify_segments[OF p s]
    by (simp add: plain_lib_sel plain_decode_mock checksum_mock[simplified] trim_def
        char_class_defs mock_payload_def)
  show "jwt_verify plain_lib clock zero_life_token ''test-secret-key'' =
     (if clock \<ge> 1000 then Inl (TokenExpiredError 1000) else Inr (mock_payload 1000 1000))"
    unfolding z jwt_verify_segments[OF q s']
    by (simp add: plain_lib_sel plain_decode_mock checksum_mock[simplified] trim_def
        char_class_defs mock_payload_def)
  show "jwt_verify plain_lib clock (mock_token @ ''0'') ''test-secret-key'' =
     Inl (JsonWebTokenError ''invalid signature'')"
    unfolding b jwt_verify_segments[OF p s'']
    by (simp add: plain_lib_sel plain_decode_mock checksum_mock[simplified] trim_def
        char_class_defs mock_payload_def)
qed

lemma jwt_verify_invalid_token:
  "jwt_verify plain_lib clock ''invalid-token'' secret = Inl (JsonWebTokenError ''jwt malformed'')"
  by (simp add: jwt_verify_def)


lemma split_tokens:
  "split_on (CHR ''.'') mock_token
     = [jwt_header, ''+507f1f77bcf86cd799439011|+test@example~dcom|+testuser|+user|+1000|+4600'',
        ''20289'']"
  "split_on (CHR ''.'') hs384_token
     = [''alg-HS384'', ''+507f1f77bcf86cd799439011|+test@example~dcom|+testuser|+user|+1000|+4600'',
        ''3896'']"
  "split_on (CHR ''.'') none_token
     = [''alg-none'', ''+507f1f77bcf86cd799439011|+test@example~dcom|+testuser|+user|+1000|+4600'',
        ''25065'']"
proof -
  let ?p = "''+507f1f77bcf86cd799439011|+test@example~dcom|+testuser|+user|+1000|+4600''"
  have nd: "CHR ''.'' \<notin> set ?p" "CHR ''.'' \<notin> set ''20289''" "CHR ''.'' \<notin> set ''alg-HS384''"
    "CHR ''.'' \<notin> set ''3896''" "CHR ''.'' \<notin> set ''alg-none''" "CHR ''.'' \<notin> set ''25065''"
    by simp_all
  show "split_on (CHR ''.'') mock_token = [jwt_header, ?p, ''20289'']"
    using split_on_three[OF jwt_header_no_dot nd(1) nd(2)] by (simp add: mock_token_def)
  show "split_on (CHR ''.'') hs384_token = [''alg-HS384'', ?p, ''3896'']"
    using split_on_three[OF nd(3) nd(1) nd(4)] by (simp add: hs384_token_def)
  show "split_on (CHR ''.'') none_token = [''alg-none'', ?p, ''25065'']"
    using split_on_three[OF nd(5) nd(1) nd(6)] by (simp add: none_token_def)
qed

lemma checksum_hs384:
  "checksum (''HS384'' @ CHR '':'' # ''test-secret-key'')
     (''alg-HS384'' @ ''.+507f1f77bcf86cd799439011|+test@example~dcom|+testuser|+user|+1000|+4600'')
     = ''3896''"
  by (simp add: checksum_def code_def digit_char_def)

lemma plain_alg:
  "alg_of plain_lib jwt_header = Some ''HS256''"
  "alg_of plain_lib ''alg-HS384'' = Some ''HS384''"
  "alg_of plain_lib ''alg-none'' = Some ''none''"
  by (simp_all add: alg_of_def jwt_header_def plain_lib_sel plain_header_alg_def)

lemma plain_signatures:
  "signature_for plain_lib ''HS256'' ''test-secret-key''
     (jwt_header @ ''.'' @ ''+507f1f77bcf86cd799439011|+test@example~dcom|+testuser|+user|+1000|+4600'')
     = ''20289''"
  "signature_for plain_lib ''HS384'' ''test-secret-key''
     (''alg-HS384'' @ ''.'' @ ''+507f1f77bcf86cd799439011|+test@example~dcom|+testuser|+user|+1000|+4600'')
     = ''3896''"
  by (simp_all add: signature_for_def plain_lib_sel checksum_mock[simplified]
      checksum_hs384[simplified])

subsection \<open>Round trip and failures\<close>

text \<open>
  Claim C1.  Issuing and then verifying is a round trip: for every user, a token issued
  at \<open>clock\<close> and verified at any \<open>clock'\<close> before its expiry verifies, and the claims
  returned carry the user's id in its string form, the email, the username and the
  role.  The lifetime \<open>d\<close> is the configured \<open>JWT_EXPIRES_IN\<close> as the package reads it;
  \<open>segments_ok\<close> states what the package's encoding and keyed hash guarantee for the
  payload that is signed.
\<close>

theorem token_round_trip:
  assumes "timespan lib (JWT_EXPIRES_IN env) = Some d"
    and "segments_ok lib (JWT_SECRET env)
           ((token_payload u)\<lparr>c_iat := Some clock, c_exp := Some (clock + d)\<rparr>)"
    and "clock' < clock + d"
  shows "\<exists>t c. generateToken env lib clock u = Inr t
     \<and> verifyToken env lib clock' t = Inr c
     \<and> c_id c = Some (toString (user_id u)) \<and> c_email c = Some (email u)
     \<and> c_username c = Some (username u) \<and> c_role c = Some (role u)"
proof -
  let ?p = "(token_payload u)\<lparr>c_iat := Some clock, c_exp := Some (clock + d)\<rparr>"
  from verify_issued[OF assms(1,2), of clock'] assms(3)
  obtain t where gen: "generateToken env lib clock u = Inr t"
    and ver: "jwt_verify lib clock' t (JWT_SECRET env) = Inr ?p"
    by auto
  have "verifyToken env lib clock' t = Inr ?p" by (simp add: verifyToken_def ver)
  moreover have "c_id ?p = Some (toString (user_id u)) \<and> c_email ?p = Some (email u)
     \<and> c_username ?p = Some (username u) \<and> c_role ?p = Some (role u)"
    by (simp add: token_payload_def)
  ultimately show ?thesis using gen by blast
qed

theorem token_round_trip_witness:
  "timespan plain_lib (JWT_EXPIRES_IN test_env) = Some 3600
   \<and> segments_ok plain_lib (JWT_SECRET test_env) (mock_payload 1000 (1000 + 3600))
   \<and> (\<exists>t c. generateToken test_env plain_lib 1000 mockUser = Inr t
         \<and> verifyToken test_env plain_lib 1001 t = Inr c
         \<and> c_id c = Some ''507f1f77bcf86cd799439011'' \<and> c_email c = Some ''test@example.com''
         \<and> c_username c = Some ''testuser'' \<and> c_role c = Some ''user'')"
proof -
  have ts: "timespan plain_lib (JWT_EXPIRES_IN test_env) = Some 3600"
    by (simp add: test_env_config plain_lib_sel plain_timespan_examples)
  have ok: "segments_ok plain_lib (JWT_SECRET test_env)
      ((token_payload mockUser)\<lparr>c_iat := Some 1000, c_exp := Some (1000 + 3600)\<rparr>)"
    by (simp add: mock_issued test_env_config segments_ok_mock)
  have lt: "(1001::int) < 1000 + 3600" by simp
  have ok': "segments_ok plain_lib (JWT_SECRET test_env) (mock_payload 1000 (1000 + 3600))"
    by (simp add: test_env_config segments_ok_mock)
  have fields: "toString (user_id mockUser) = ''507f1f77bcf86cd799439011''"
    "email mockUser = ''test@example.com''" "username mockUser = ''testuser''"
    "role mockUser = ''user''"
    by (simp_all add: mockUser_def toString_def)
  from token_round_trip[OF ts ok lt] have
    "\<exists>t c. generateToken test_env plain_lib 1000 mockUser = Inr t
         \<and> verifyToken test_env plain_lib 1001 t = Inr c
         \<and> c_id c = Some ''507f1f77bcf86cd799439011'' \<and> c_email c = Some ''test@example.com''
         \<and> c_username c = Some ''testuser'' \<and> c_role c = Some ''user''"
    unfolding fields .
  with ts ok' show ?thesis by (intro conjI)
qed

text \<open>
  Claim C2, as stated, fails for the failure kinds: \<open>verifyToken\<close> catches whatever the
  package throws and throws \<open>Error('Invalid token')\<close> instead.  A string that is no
  token, an expired token and a token with an altered signature fail in three different
  ways inside the package and in one and the same way for the caller.
\<close>

theorem verifyToken_kinds_indistinguishable:
  "jwt_verify plain_lib 1001 ''invalid-token'' (JWT_SECRET test_env)
     = Inl (JsonWebTokenError ''jwt malformed'')
   \<and> jwt_verify plain_lib 4600 mock_token (JWT_SECRET test_env) = Inl (TokenExpiredError 4600)
   \<and> jwt_verify plain_lib 1001 (mock_token @ ''0'') (JWT_SECRET test_env)
     = Inl (JsonWebTokenError ''invalid signature'')
   \<and> verifyToken test_env plain_lib 1001 ''invalid-token'' = Inl (Error ''Invalid token'')
   \<and> verifyToken test_env plain_lib 4600 mock_token = Inl (Error ''Invalid token'')
   \<and> verifyToken test_env plain_lib 1001 (mock_token @ ''0'') = Inl (Error ''Invalid token'')"
  by (simp add: verifyToken_def test_env_config jwt_verify_mock jwt_verify_invalid_token)

lemma jwt_verify_malformed:
  assumes "length (split_on (CHR ''.'') token) \<noteq> 3"
  shows "\<exists>m. jwt_verify lib clock token secret = Inl (JsonWebTokenError m)"
proof (cases "split_on (CHR ''.'') token")
  case Nil
  then show ?thesis by (simp add: jwt_verify_def)
next
  case (Cons a as)
  with assms show ?thesis
    by (cases as; cases "tl as"; cases "tl (tl as)") (auto simp: jwt_verify_def)
qed

lemma jwt_verify_Inr_iff:
  "jwt_verify lib clock token secret = Inr c \<longleftrightarrow>
     secret \<noteq> [] \<and>
     (\<exists>h p s alg. split_on (CHR ''.'') token = [h, p, s]
        \<and> alg_of lib h = Some alg \<and> alg \<in> set hmac_algorithms
        \<and> decode_payload lib p = Some c
        \<and> trim s \<noteq> []
        \<and> s = signature_for lib alg secret (h @ ''.'' @ p)
        \<and> (\<forall>n. c_nbf c = Some n \<longrightarrow> n \<le> clock)
        \<and> (\<forall>e. c_exp c = Some e \<longrightarrow> clock < e))"
proof (cases "\<exists>h p s. split_on (CHR ''.'') token = [h, p, s]")
  case False
  then have "jwt_verify lib clock token secret
      = Inl (JsonWebTokenError ''jwt must be provided'')
    \<or> jwt_verify lib clock token secret = Inl (JsonWebTokenError ''jwt malformed'')"
    by (auto simp: jwt_verify_def split: list.splits)
  with False show ?thesis by auto
next
  case True
  then obtain h p s where sp: "split_on (CHR ''.'') token = [h, p, s]" by blast
  then have ne: "token \<noteq> []" by auto
  show ?thesis
    unfolding jwt_verify_def sp using ne
    by (auto split: option.splits)
qed

text \<open>
  Claim C2, amended.  For every input string \<open>verifyToken\<close> either returns claims or
  fails with the one error "Invalid token".  It returns the claims \<open>c\<close> exactly when the
  string consists of three segments, the header names an allowed algorithm, the payload
  decodes to \<open>c\<close>, the signature is not blank and is the signature of the first two
  segments under the secret, and \<open>c\<close> is active and not expired at the time of the
  check; the claims are returned as decoded.  In every other case, whether the string
  cannot be decoded, the signature does not match or the expiry has passed, the failure
  is "Invalid token".  A token issued with lifetime 0 fails with it from the moment of
  issue on, where the package reports the expiry.  The caller cannot tell the kinds of
  failure apart.
\<close>

theorem verifyToken_failures_coalesced:
  "(\<forall>e. verifyToken env lib clock token = Inl e \<longrightarrow> e = Error ''Invalid token'')
   \<and> (\<forall>c. verifyToken env lib clock token = Inr c \<longleftrightarrow>
        (\<exists>h p s alg. split_on (CHR ''.'') token = [h, p, s]
           \<and> alg_of lib h = Some alg \<and> alg \<in> set hmac_algorithms
           \<and> decode_payload lib p = Some c
           \<and> trim s \<noteq> []
           \<and> s = signature_for lib alg (JWT_SECRET env) (h @ ''.'' @ p)
           \<and> (\<forall>n. c_nbf c = Some n \<longrightarrow> n \<le> clock)
           \<and> (\<forall>e. c_exp c = Some e \<longrightarrow> clock < e)))
   \<and> ((\<forall>c. verifyToken env lib clock token \<noteq> Inr c)
        \<longrightarrow> verifyToken env lib clock token = Inl (Error ''Invalid token''))
   \<and> (length (split_on (CHR ''.'') token) \<noteq> 3
        \<longrightarrow> verifyToken env lib clock token = Inl (Error ''Invalid token''))
   \<and> (\<forall>u t0. timespan lib (JWT_EXPIRES_IN env) = Some 0
          \<and> segments_ok lib (JWT_SECRET env)
               ((token_payload u)\<lparr>c_iat := Some t0, c_exp := Some t0\<rparr>)
          \<and> generateToken env lib t0 u = Inr token \<and> t0 \<le> clock
        \<longrightarrow> jwt_verify lib clock token (JWT_SECRET env) = Inl (TokenExpiredError t0)
            \<and> verifyToken env lib clock token = Inl (Error ''Invalid token''))"
proof -
  have one: "\<forall>e. verifyToken env lib clock token = Inl e \<longrightarrow> e = Error ''Invalid token''"
    by (auto simp: verifyToken_def split: sum.splits)
  have same: "verifyToken env lib clock token = Inr c
      \<longleftrightarrow> jwt_verify lib clock token (JWT_SECRET env) = Inr c" for c
    by (auto simp: verifyToken_def split: sum.splits)
  have iff: "\<forall>c. verifyToken env lib clock token = Inr c \<longleftrightarrow>
        (\<exists>h p s alg. split_on (CHR ''.'') token = [h, p, s]
           \<and> alg_of lib h = Some alg \<and> alg \<in> set hmac_algorithms
           \<and> decode_payload lib p = Some c
           \<and> trim s \<noteq> []
           \<and> s = signature_for lib alg (JWT_SECRET env) (h @ ''.'' @ p)
           \<and> (\<forall>n. c_nbf c = Some n \<longrightarrow> n \<le> clock)
           \<and> (\<forall>e. c_exp c = Some e \<longrightarrow> clock < e))"
    unfolding same jwt_verify_Inr_iff using JWT_SECRET_nonempty[of env] by simp
  have other: "(\<forall>c. verifyToken env lib clock token \<noteq> Inr c)
        \<longrightarrow> verifyToken env lib clock token = Inl (Error ''Invalid token'')"
    by (auto simp: verifyToken_def split: sum.splits)
  have short: "length (split_on (CHR ''.'') token) \<noteq> 3
        \<longrightarrow> verifyToken env lib clock token = Inl (Error ''Invalid token'')"
  proof
    assume "length (split_on (CHR ''.'') token) \<noteq> 3"
    from jwt_verify_malformed[OF this, of lib clock "JWT_SECRET env"]
    obtain m where "jwt_verify lib clock token (JWT_SECRET env) = Inl (JsonWebTokenError m)" ..
    then show "verifyToken env lib clock token = Inl (Error ''Invalid token'')"
      by (simp add: verifyToken_def)
  qed
  have zero: "\<forall>u t0. timespan lib (JWT_EXPIRES_IN env) = Some 0
          \<and> segments_ok lib (JWT_SECRET env)
               ((token_payload u)\<lparr>c_iat := Some t0, c_exp := Some t0\<rparr>)
          \<and> generateToken env lib t0 u = Inr token \<and> t0 \<le> clock
        \<longrightarrow> jwt_verify lib clock token (JWT_SECRET env) = Inl (TokenExpiredError t0)
            \<and> verifyToken env lib clock token = Inl (Error ''Invalid token'')"
  proof (intro allI impI)
    fix u t0
    assume a: "timespan lib (JWT_EXPIRES_IN env) = Some 0
          \<and> segments_ok lib (JWT_SECRET env)
               ((token_payload u)\<lparr>c_iat := Some t0, c_exp := Some t0\<rparr>)
          \<and> generateToken env lib t0 u = Inr token \<and> t0 \<le> clock"
    then have ts: "timespan lib (JWT_EXPIRES_IN env) = Some 0"
      and ok: "segments_ok lib (JWT_SECRET env)
               ((token_payload u)\<lparr>c_iat := Some t0, c_exp := Some (t0 + 0)\<rparr>)"
      and gen: "generateToken env lib t0 u = Inr token" and le: "t0 \<le> clock"
      by simp_all
    from verify_issued[OF ts ok, of clock] gen le
    have v: "jwt_verify lib clock token (JWT_SECRET env) = Inl (TokenExpiredError t0)"
      by auto
    then show "jwt_verify lib clock token (JWT_SECRET env) = Inl (TokenExpiredError t0)
            \<and> verifyToken env lib clock token = Inl (Error ''Invalid token'')"
      by (simp add: verifyToken_def)
  qed
  show ?thesis by (rule conjI[OF one conjI[OF iff conjI[OF other conjI[OF short zero]]]])
qed

theorem verifyToken_failures_coalesced_witness:
  "length (split_on (CHR ''.'') ''invalid-token'') \<noteq> 3
   \<and> verifyToken test_env plain_lib 1001 ''invalid-token'' = Inl (Error ''Invalid token'')
   \<and> verifyToken test_env plain_lib 1001 mock_token = Inr (mock_payload 1000 4600)
   \<and> verifyToken test_env plain_lib 4600 mock_token = Inl (Error ''Invalid token'')
   \<and> verifyToken test_env plain_lib 1001 hs384_token = Inr (mock_payload 1000 4600)
   \<and> verifyToken test_env plain_lib 1001 none_token = Inl (Error ''Invalid token'')
   \<and> generateToken (test_env\<lparr>env_JWT_EXPIRES_IN := Some ''0s''\<rparr>) plain_lib 1000 mockUser
       = Inr zero_life_token
   \<and> jwt_verify plain_lib 1000 zero_life_token ''test-secret-key'' = Inl (TokenExpiredError 1000)
   \<and> verifyToken (test_env\<lparr>env_JWT_EXPIRES_IN := Some ''0s''\<rparr>) plain_lib 1000 zero_life_token
       = Inl (Error ''Invalid token'')"
proof -
  let ?env0 = "test_env\<lparr>env_JWT_EXPIRES_IN := Some ''0s''\<rparr>"
  let ?p = "''+507f1f77bcf86cd799439011|+test@example~dcom|+testuser|+user|+1000|+4600''"
  let ?c = "mock_payload 1000 4600"
  note SHORT = verifyToken_failures_coalesced[of test_env plain_lib 1001 "''invalid-token''",
      THEN conjunct2, THEN conjunct2, THEN conjunct2, THEN conjunct1]
  note IFF_b = verifyToken_failures_coalesced[of test_env plain_lib 1001 mock_token,
      THEN conjunct2, THEN conjunct1, THEN spec, of ?c]
  note IFF_d = verifyToken_failures_coalesced[of test_env plain_lib 1001 hs384_token,
      THEN conjunct2, THEN conjunct1, THEN spec, of ?c]
  note IFF_c = verifyToken_failures_coalesced[of test_env plain_lib 4600 mock_token,
      THEN conjunct2, THEN conjunct1, THEN spec]
  note OTHER_c = verifyToken_failures_coalesced[of test_env plain_lib 4600 mock_token,
      THEN conjunct2, THEN conjunct2, THEN conjunct1]
  note IFF_e = verifyToken_failures_coalesced[of test_env plain_lib 1001 none_token,
      THEN conjunct2, THEN conjunct1, THEN spec]
  note OTHER_e = verifyToken_failures_coalesced[of test_env plain_lib 1001 none_token,
      THEN conjunct2, THEN conjunct2, THEN conjunct1]
  note ZERO = verifyToken_failures_coalesced[of ?env0 plain_lib 1000 zero_life_token,
      THEN conjunct2, THEN conjunct2, THEN conjunct2, THEN conjunct2,
      THEN spec[of _ mockUser], THEN spec[of _ "1000::int"]]
  have len: "length (split_on (CHR ''.'') ''invalid-token'') \<noteq> 3" by simp
  have a: "verifyToken test_env plain_lib 1001 ''invalid-token'' = Inl (Error ''Invalid token'')"
    by (rule mp[OF SHORT len])
  have sec: "JWT_SECRET test_env = ''test-secret-key''"
    "JWT_SECRET ?env0 = ''test-secret-key''" by (simp_all add: test_env_config)
  have dec: "decode_payload plain_lib ?p = Some ?c"
    by (simp add: plain_lib_sel plain_decode_mock)
  have allowed: "''HS256'' \<in> set hmac_algorithms" "''HS384'' \<in> set hmac_algorithms"
    "''none'' \<notin> set hmac_algorithms"
    by (simp_all add: hmac_algorithms_def)
  have nb: "trim ''20289'' \<noteq> []" "trim ''3896'' \<noteq> []"
    by (simp_all add: trim_def char_class_defs)
  have nbf: "\<forall>n. c_nbf ?c = Some n \<longrightarrow> n \<le> 1001"
    and ex: "\<forall>e. c_exp ?c = Some e \<longrightarrow> 1001 < e"
    and ex': "c_exp ?c = Some 4600"
    by (simp_all add: mock_payload_def)
  have sg1: "''20289'' = signature_for plain_lib ''HS256'' (JWT_SECRET test_env)
        (jwt_header @ ''.'' @ ?p)"
    unfolding sec(1) by (rule plain_signatures(1)[symmetric])
  have sg2: "''3896'' = signature_for plain_lib ''HS384'' (JWT_SECRET test_env)
        (''alg-HS384'' @ ''.'' @ ?p)"
    unfolding sec(1) by (rule plain_signatures(2)[symmetric])
  have Eb: "\<exists>h p s alg. split_on (CHR ''.'') mock_token = [h, p, s]
           \<and> alg_of plain_lib h = Some alg \<and> alg \<in> set hmac_algorithms
           \<and> decode_payload plain_lib p = Some ?c
           \<and> trim s \<noteq> []
           \<and> s = signature_for plain_lib alg (JWT_SECRET test_env) (h @ ''.'' @ p)
           \<and> (\<forall>n. c_nbf ?c = Some n \<longrightarrow> n \<le> 1001)
           \<and> (\<forall>e. c_exp ?c = Some e \<longrightarrow> 1001 < e)"
    by (rule exI[of _ jwt_header], rule exI[of _ ?p], rule exI[of _ "''20289''"],
        rule exI[of _ "''HS256''"])
       (rule conjI[OF split_tokens(1) conjI[OF plain_alg(1) conjI[OF allowed(1) conjI[OF dec
          conjI[OF nb(1) conjI[OF sg1 conjI[OF nbf ex]]]]]]])
  have b: "verifyToken test_env plain_lib 1001 mock_token = Inr ?c"
    by (rule iffD2[OF IFF_b Eb])
  have Ed: "\<exists>h p s alg. split_on (CHR ''.'') hs384_token = [h, p, s]
           \<and> alg_of plain_lib h = Some alg \<and> alg \<in> set hmac_algorithms
           \<and> decode_payload plain_lib p = Some ?c
           \<and> trim s \<noteq> []
           \<and> s = signature_for plain_lib alg (JWT_SECRET test_env) (h @ ''.'' @ p)
           \<and> (\<forall>n. c_nbf ?c = Some n \<longrightarrow> n \<le> 1001)
           \<and> (\<forall>e. c_exp ?c = Some e \<longrightarrow> 1001 < e)"
    by (rule exI[of _ "''alg-HS384''"], rule exI[of _ ?p], rule exI[of _ "''3896''"],
        rule exI[of _ "''HS384''"])
       (rule conjI[OF split_tokens(2) conjI[OF plain_alg(2) conjI[OF allowed(2) conjI[OF dec
          conjI[OF nb(2) conjI[OF sg2 conjI[OF nbf ex]]]]]]])
  have d: "verifyToken test_env plain_lib 1001 hs384_token = Inr ?c"
    by (rule iffD2[OF IFF_d Ed])
  have nc: "\<forall>c. verifyToken test_env plain_lib 4600 mock_token \<noteq> Inr c"
  proof (rule allI, rule notI)
    fix c
    assume "verifyToken test_env plain_lib 4600 mock_token = Inr c"
    from iffD1[OF IFF_c this]
    obtain h p s a where sp: "split_on (CHR ''.'') mock_token = [h, p, s]"
      and al: "alg_of plain_lib h = Some a"
      and dp: "decode_payload plain_lib p = Some c"
      and e: "\<forall>e. c_exp c = Some e \<longrightarrow> 4600 < e"
      by (elim exE conjE)
    from sp have "p = ?p" unfolding split_tokens(1) by simp
    with dp dec have "c = ?c" by simp
    with e ex' show False by simp
  qed
  have c: "verifyToken test_env plain_lib 4600 mock_token = Inl (Error ''Invalid token'')"
    by (rule mp[OF OTHER_c nc])
  have ne: "\<forall>c. verifyToken test_env plain_lib 1001 none_token \<noteq> Inr c"
  proof (rule allI, rule notI)
    fix c
    assume "verifyToken test_env plain_lib 1001 none_token = Inr c"
    from iffD1[OF IFF_e this]
    obtain h p s a where sp: "split_on (CHR ''.'') none_token = [h, p, s]"
      and al: "alg_of plain_lib h = Some a" and mem: "a \<in> set hmac_algorithms"
      by (elim exE conjE)
    from sp have "h = ''alg-none''" unfolding split_tokens(3) by simp
    with al plain_alg(3) have "a = ''none''" by simp
    with mem allowed(3) show False by simp
  qed
  have e: "verifyToken test_env plain_lib 1001 none_token = Inl (Error ''Invalid token'')"
    by (rule mp[OF OTHER_e ne])
  have ts: "timespan plain_lib (JWT_EXPIRES_IN ?env0) = Some 0"
    by (simp add: test_env_config plain_lib_sel plain_timespan_examples)
  have ok: "segments_ok plain_lib (JWT_SECRET ?env0)
      ((token_payload mockUser)\<lparr>c_iat := Some 1000, c_exp := Some 1000\<rparr>)"
    by (simp add: mock_issued test_env_config segments_ok_mock)
  have gen: "generateToken ?env0 plain_lib 1000 mockUser = Inr zero_life_token"
    by (rule generateToken_mock)
  have le: "(1000::int) \<le> 1000" by simp
  have z: "jwt_verify plain_lib 1000 zero_life_token (JWT_SECRET ?env0)
             = Inl (TokenExpiredError 1000)
       \<and> verifyToken ?env0 plain_lib 1000 zero_life_token = Inl (Error ''Invalid token'')"
    by (rule mp[OF ZERO conjI[OF ts conjI[OF ok conjI[OF gen le]]]])
  have z1: "jwt_verify plain_lib 1000 zero_life_token ''test-secret-key''
             = Inl (TokenExpiredError 1000)"
    using conjunct1[OF z] unfolding sec(2) .
  have z2: "verifyToken ?env0 plain_lib 1000 zero_life_token = Inl (Error ''Invalid token'')"
    by (rule conjunct2[OF z])
  show ?thesis by (rule conjI[OF len conjI[OF a conjI[OF b conjI[OF c conjI[OF d conjI[OF e
      conjI[OF gen conjI[OF z1 z2]]]]]]]])
qed

text \<open>
  Claim C8.  \<open>getCurrentUser\<close> returns none for every token whose embedded id has no
  record in the identity store, and for every token whose record is inactive.  An
  identity that is returned is active, comes from the store's record for the verified
  token's id, and carries no password.
\<close>

theorem getCurrentUser_none_for_dead_accounts:
  "(\<forall>decoded. verifyToken env lib clock token = Inr decoded \<and> findById (c_id decoded) = Inr None
      \<longrightarrow> getCurrentUser env lib clock findById token = None)
   \<and> (\<forall>decoded doc. verifyToken env lib clock token = Inr decoded
        \<and> findById (c_id decoded) = Inr (Some doc) \<and> \<not> isActive doc
      \<longrightarrow> getCurrentUser env lib clock findById token = None)
   \<and> (\<forall>u. getCurrentUser env lib clock findById token = Some u
      \<longrightarrow> isActive u \<and> password u = None
          \<and> (\<exists>decoded doc. verifyToken env lib clock token = Inr decoded
                \<and> findById (c_id decoded) = Inr (Some doc) \<and> u = select_minus_password doc))"
  by (auto simp: getCurrentUser_def select_minus_password_def Let_def
      split: sum.splits option.splits if_splits)

theorem getCurrentUser_none_for_dead_accounts_witness:
  "verifyToken test_env plain_lib 1001 mock_token = Inr (mock_payload 1000 4600)
   \<and> getCurrentUser test_env plain_lib 1001 (\<lambda>i. Inr None) mock_token = None
   \<and> getCurrentUser test_env plain_lib 1001
        (\<lambda>i. if i = Some ''507f1f77bcf86cd799439011''
              then Inr (Some (mockUser\<lparr>isActive := False\<rparr>)) else Inr None) mock_token = None"
proof -
  let ?store = "\<lambda>i. if i = Some ''507f1f77bcf86cd799439011''
              then Inr (Some (mockUser\<lparr>isActive := False\<rparr>)) else Inr None"
  have v: "verifyToken test_env plain_lib 1001 mock_token = Inr (mock_payload 1000 4600)"
    by (simp add: verifyToken_def test_env_config jwt_verify_mock)
  have i: "c_id (mock_payload 1000 4600) = Some ''507f1f77bcf86cd799439011''"
    by (simp add: mock_payload_def)
  have d: "\<not> isActive (mockUser\<lparr>isActive := False\<rparr>)" by simp
  from getCurrentUser_none_for_dead_accounts
         [of test_env plain_lib 1001 mock_token "\<lambda>i. Inr None"] v
  have a: "getCurrentUser test_env plain_lib 1001 (\<lambda>i. Inr None) mock_token = None"
    by blast
  from getCurrentUser_none_for_dead_accounts[of test_env plain_lib 1001 mock_token ?store] v i d
  have b: "getCurrentUser test_env plain_lib 1001 ?store mock_token = None"
    by (elim conjE allE[of _ "mock_payload 1000 4600"] allE[of _ "mockUser\<lparr>isActive := False\<rparr>"])
       simp
  from v a b show ?thesis by (intro conjI)
qed


section \<open>Properties of the middleware\<close>

text \<open>
  Claim C9.  \<open>optionalAuth\<close> always continues with \<open>next()\<close>, whatever the request and
  whatever the lookup does.  When the lookup throws or finds nobody, or when there is no
  bearer token, the request is passed on unchanged; only a user that the lookup returns
  is attached.  With \<open>getCurrentUser\<close> as the lookup, a store that rejects every query
  leaves the request unchanged as well.  The lookup is a total function here: one that
  never settles is not covered.
\<close>

theorem optionalAuth_continues:
  "snd (optionalAuth lookup req) = Next
   \<and> (\<forall>tok e. extractTokenFromHeader (authorization req) = Some tok \<and> lookup tok = Inl e
        \<longrightarrow> optionalAuth lookup req = (req, Next))
   \<and> (\<forall>tok. extractTokenFromHeader (authorization req) = Some tok \<and> lookup tok = Inr None
        \<longrightarrow> optionalAuth lookup req = (req, Next))
   \<and> (extractTokenFromHeader (authorization req) = None
        \<longrightarrow> optionalAuth lookup req = (req, Next))
   \<and> (\<forall>tok u. extractTokenFromHeader (authorization req) = Some tok \<and> tok \<noteq> []
          \<and> lookup tok = Inr (Some u)
        \<longrightarrow> optionalAuth lookup req = (req\<lparr>req_user := Some u\<rparr>, Next))
   \<and> ((\<forall>i. \<exists>e. findById i = Inl e)
        \<longrightarrow> optionalAuth (\<lambda>t. Inr (getCurrentUser env lib clock findById t)) req = (req, Next))"
proof -
  have gcu: "getCurrentUser env lib clock findById t = None" if "\<forall>i. \<exists>e. findById i = Inl e" for t
  proof (cases "verifyToken env lib clock t")
    case (Inl e)
    then show ?thesis by (simp add: getCurrentUser_def)
  next
    case (Inr d)
    from that obtain e where "findById (c_id d) = Inl e" by blast
    with Inr show ?thesis by (simp add: getCurrentUser_def)
  qed
  have nxt: "snd (optionalAuth lookup req) = Next"
    by (auto simp: optionalAuth_def optionalAuth_try_def Let_def split: sum.splits option.splits)
  have rest: "(\<forall>tok e. extractTokenFromHeader (authorization req) = Some tok \<and> lookup tok = Inl e
        \<longrightarrow> optionalAuth lookup req = (req, Next))
   \<and> (\<forall>tok. extractTokenFromHeader (authorization req) = Some tok \<and> lookup tok = Inr None
        \<longrightarrow> optionalAuth lookup req = (req, Next))
   \<and> (extractTokenFromHeader (authorization req) = None
        \<longrightarrow> optionalAuth lookup req = (req, Next))
   \<and> (\<forall>tok u. extractTokenFromHeader (authorization req) = Some tok \<and> tok \<noteq> []
          \<and> lookup tok = Inr (Some u)
        \<longrightarrow> optionalAuth lookup req = (req\<lparr>req_user := Some u\<rparr>, Next))"
    by (auto simp: optionalAuth_def optionalAuth_try_def Let_def truthy_def
        split: sum.splits option.splits)
  have store: "(\<forall>i. \<exists>e. findById i = Inl e)
        \<longrightarrow> optionalAuth (\<lambda>t. Inr (getCurrentUser env lib clock findById t)) req = (req, Next)"
    using gcu
    by (auto simp: optionalAuth_def optionalAuth_try_def Let_def split: sum.splits option.splits)
  from nxt rest store show ?thesis by blast
qed

theorem optionalAuth_continues_witness:
  "extractTokenFromHeader (Some ''Bearer abc'') = Some ''abc''
   \<and> optionalAuth (\<lambda>t. Inl (Error ''Database error''))
        \<lparr>authorization = Some ''Bearer abc'', req_user = None\<rparr>
       = (\<lparr>authorization = Some ''Bearer abc'', req_user = None\<rparr>, Next)
   \<and> optionalAuth
        (\<lambda>t. Inr (getCurrentUser test_env plain_lib 1001 (\<lambda>i. Inl (Error ''Database error'')) t))
        \<lparr>authorization = Some (''Bearer '' @ mock_token), req_user = None\<rparr>
       = (\<lparr>authorization = Some (''Bearer '' @ mock_token), req_user = None\<rparr>, Next)"
proof -
  let ?req = "\<lparr>authorization = Some ''Bearer abc'', req_user = None\<rparr>"
  have x: "extractTokenFromHeader (authorization ?req) = Some ''abc''"
    by (simp add: extractTokenFromHeader_def truthy_def startsWith_def)
  have a: "optionalAuth (\<lambda>t. Inl (Error ''Database error'')) ?req = (?req, Next)"
    using optionalAuth_continues[of "\<lambda>t. Inl (Error ''Database error'')" ?req] x by blast
  have b: "optionalAuth
        (\<lambda>t. Inr (getCurrentUser test_env plain_lib 1001 (\<lambda>i. Inl (Error ''Database error'')) t))
        \<lparr>authorization = Some (''Bearer '' @ mock_token), req_user = None\<rparr>
       = (\<lparr>authorization = Some (''Bearer '' @ mock_token), req_user = None\<rparr>, Next)"
    using optionalAuth_continues[of _ _ "\<lambda>i. Inl (Error ''Database error'')" test_env plain_lib 1001]
    by blast
  from x a b show ?thesis by simp
qed

text \<open>
  Claim C7.  For a resolved identity and a present owner id, \<open>requireOwner\<close> lets the
  request through exactly when the string form of the identity's id equals the string
  form of the owner id or the role is \<open>admin\<close>, the elevated role of this middleware; this
  is \<open>isOwner\<close> or \<open>hasRole\<close> for \<open>admin\<close>, and every other request is answered with
  403.  The decision depends on the ids through their string forms only: replacing a
  plain id by a boxed one with the same string, or the reverse, does not change it.
\<close>

theorem requireOwner_owner_or_admin:
  assumes "req_user req = Some u" and "getResourceUserId req = Some rid"
    and "id_truthy (Some rid)"
  shows "((requireOwner getResourceUserId req = Next)
            = (toString (user_id u) = toString rid \<or> role u = ''admin''))
     \<and> ((requireOwner getResourceUserId req = Next)
            = (isOwner (Some u) (Some rid) \<or> hasRole (Some u) (OneRole ''admin'')))
     \<and> ((requireOwner getResourceUserId req = Respond 403 ''Access denied'')
            = (toString (user_id u) \<noteq> toString rid \<and> role u \<noteq> ''admin''))
     \<and> (\<forall>uid' rid'. toString uid' = toString (user_id u) \<and> toString rid' = toString rid
            \<and> id_truthy (Some rid')
          \<longrightarrow> requireOwner (\<lambda>r. Some rid') (req\<lparr>req_user := Some (u\<lparr>user_id := uid'\<rparr>)\<rparr>)
              = requireOwner getResourceUserId req)"
  using assms
  by (auto simp: requireOwner_def isOwner_def hasRole_def Let_def)

theorem requireOwner_owner_or_admin_witness:
  "requireOwner (\<lambda>r. Some (StringId ''507f1f77bcf86cd799439012''))
       \<lparr>authorization = None, req_user = Some mockUser\<rparr> = Respond 403 ''Access denied''
   \<and> requireOwner (\<lambda>r. Some (StringId ''507f1f77bcf86cd799439012''))
       \<lparr>authorization = None, req_user = Some (mockUser\<lparr>role := ''admin''\<rparr>)\<rparr> = Next
   \<and> requireOwner (\<lambda>r. Some (StringId ''507f1f77bcf86cd799439011''))
       \<lparr>authorization = None,
        req_user = Some (mockUser\<lparr>user_id := ObjectId ''507f1f77bcf86cd799439011''\<rparr>)\<rparr> = Next"
proof -
  let ?other = "StringId ''507f1f77bcf86cd799439012''"
  let ?own = "StringId ''507f1f77bcf86cd799439011''"
  have t: "id_truthy (Some ?other)" "id_truthy (Some ?own)" by (simp_all add: id_truthy_def)
  have a: "requireOwner (\<lambda>r. Some ?other) \<lparr>authorization = None, req_user = Some mockUser\<rparr>
      = Respond 403 ''Access denied''"
    using requireOwner_owner_or_admin
      [of "\<lparr>authorization = None, req_user = Some mockUser\<rparr>" mockUser "\<lambda>r. Some ?other" ?other]
      t
    by (simp add: mockUser_def toString_def)
  have b: "requireOwner (\<lambda>r. Some ?other)
      \<lparr>authorization = None, req_user = Some (mockUser\<lparr>role := ''admin''\<rparr>)\<rparr> = Next"
    using requireOwner_owner_or_admin
      [of "\<lparr>authorization = None, req_user = Some (mockUser\<lparr>role := ''admin''\<rparr>)\<rparr>"
          "mockUser\<lparr>role := ''admin''\<rparr>" "\<lambda>r. Some ?other" ?other] t
    by (simp add: mockUser_def toString_def)
  have c: "requireOwner (\<lambda>r. Some ?own)
      \<lparr>authorization = None,
        req_user = Some (mockUser\<lparr>user_id := ObjectId ''507f1f77bcf86cd799439011''\<rparr>)\<rparr> = Next"
    using requireOwner_owner_or_admin
      [of "\<lparr>authorization = None,
        req_user = Some (mockUser\<lparr>user_id := ObjectId ''507f1f77bcf86cd799439011''\<rparr>)\<rparr>"
          "mockUser\<lparr>user_id := ObjectId ''507f1f77bcf86cd799439011''\<rparr>" "\<lambda>r. Some ?own" ?own] t
    by (simp add: mockUser_def toString_def)
  from a b c show ?thesis by (intro conjI)
qed

end
